theory Spec2Isabelle
  imports Complex_Main "HOL-Library.Product_Lexorder" "HOL-Library.Option_ord"
begin

section \<open>Data model (workflow/state.py)\<close>

text \<open>
  The state, the plan and the sub-tasks are Python dictionaries, declared in
  \<^verbatim>\<open>workflow/state.py\<close> as typed dictionaries. Each one is a record here, one field
  per key, with the value type the declaration gives. A key that the code reads with
  \<^verbatim>\<open>d.get(key, default)\<close> or tests with \<^verbatim>\<open>in\<close> may be absent: its field is an
  \<open>option\<close> and \<open>None\<close> is the absent key (for \<^verbatim>\<open>research_plan\<close>, \<^verbatim>\<open>current_task\<close>,
  \<^verbatim>\<open>final_report\<close> and \<^verbatim>\<open>user_feedback\<close> it is also the Python value \<^verbatim>\<open>None\<close>,
  which \<^verbatim>\<open>get\<close> and the truth test do not tell apart from the absent key).
  A sub-task's \<^verbatim>\<open>priority\<close> is declared \<^verbatim>\<open>Optional[int]\<close>, and the sort of the task
  queue does tell a present \<^verbatim>\<open>None\<close> from the absent key: the field is an option (the
  key) of an option (the value).
  Strings are over ASCII.
\<close>

text \<open>
  Exceptions are values. \<open>KeyError k\<close> is \<^verbatim>\<open>d[k]\<close> on a dictionary without the key
  \<open>k\<close>, \<open>AttributeError a\<close> is \<^verbatim>\<open>None.a\<close>, \<open>TypeError m\<close> is an operator applied to values
  it does not support, and \<open>Failure m\<close> is any exception that a
  collaborator raises (the language model, the prompt loader, a search tool), \<open>m\<close>
  being its \<^verbatim>\<open>str(e)\<close>.
\<close>

datatype exn = KeyError string | AttributeError string | TypeError string | Failure string

fun exn_str :: "exn \<Rightarrow> string" where
  "exn_str (KeyError k) = CHR 0x27 # k @ [CHR 0x27]"
| "exn_str (AttributeError a) = ''NoneType object has no attribute '' @ a"
| "exn_str (TypeError m) = m"
| "exn_str (Failure m) = m"

record subtask =
  task_id :: "int option"
  description :: "string option"
  search_queries :: "string list option"
  sources :: "string list option"
  status :: "string option"
  priority :: "int option option"

text \<open>
  \<^verbatim>\<open>PlanStructure\<close> declares four keys. The plan that \<^verbatim>\<open>json.loads\<close> returns can
  carry others; the only one that the code reads is \<^verbatim>\<open>'sub_task'\<close>
  (in \<^verbatim>\<open>create_research_plan\<close>), so it is a field as well.
\<close>

record plan_structure =
  research_goal :: "string option"
  sub_tasks :: "subtask list option"
  completion_criteria :: "string option"
  estimated_iterations :: "int option"
  sub_task :: "subtask list option"

record individual_result =
  title :: string
  url :: "string option"
  snippet :: string

text \<open>
  What a search tool returns, and what \<^verbatim>\<open>_search\<close> builds when the tool raises.
  The dictionary always has keys, so it is true in a Python truth test.
\<close>

record search_result =
  result_task_id :: "int option"
  result_query :: string
  result_source :: string
  results :: "individual_result list"
  timestamp :: "string option"
  error :: "string option"

record research_state =
  query :: string
  query_type :: "string option"
  research_plan :: "plan_structure option"
  plan_approved :: bool
  research_results :: "search_result list option"
  current_task :: "subtask option"
  iteration_count :: int
  max_iterations :: int
  final_report :: "string option"
  current_step :: string
  needs_more_research :: bool
  user_feedback :: "string option"
  auto_approve :: bool
  simple_response :: "string option"
  output_format :: string

section \<open>Python strings\<close>

text \<open>\<^verbatim>\<open>s.find(c)\<close> and \<^verbatim>\<open>s.rfind(c)\<close> for a one-character \<open>c\<close>: the index of the first
  (last) occurrence, or \<open>-1\<close>.\<close>

fun find_from :: "char \<Rightarrow> string \<Rightarrow> int \<Rightarrow> int" where
  "find_from c [] i = - 1"
| "find_from c (x # xs) i = (if x = c then i else find_from c xs (i + 1))"

definition py_find :: "string \<Rightarrow> char \<Rightarrow> int" where
  "py_find s c = find_from c s 0"

fun rfind_from :: "char \<Rightarrow> string \<Rightarrow> int \<Rightarrow> int \<Rightarrow> int" where
  "rfind_from c [] i found = found"
| "rfind_from c (x # xs) i found = rfind_from c xs (i + 1) (if x = c then i else found)"

definition py_rfind :: "string \<Rightarrow> char \<Rightarrow> int" where
  "py_rfind s c = rfind_from c s 0 (- 1)"

text \<open>The slice \<^verbatim>\<open>s[a:b]\<close>: a negative index counts from the end, and both are
  clamped to the string.\<close>

definition slice_index :: "int \<Rightarrow> int \<Rightarrow> int" where
  "slice_index i n = (if i < 0 then max (i + n) 0 else min i n)"

definition py_slice :: "string \<Rightarrow> int \<Rightarrow> int \<Rightarrow> string" where
  "py_slice s a b =
     (let n = int (length s); a' = slice_index a n; b' = slice_index b n
      in take (nat (b' - a')) (drop (nat a') s))"

text \<open>\<^verbatim>\<open>s.strip()\<close> and \<^verbatim>\<open>s.upper()\<close> on ASCII.\<close>

definition is_space :: "char \<Rightarrow> bool" where
  "is_space c \<longleftrightarrow>
     c \<in> set [CHR 0x09, CHR 0x0A, CHR 0x0B, CHR 0x0C, CHR 0x0D,
              CHR 0x1C, CHR 0x1D, CHR 0x1E, CHR 0x1F, CHR 0x20]"

definition py_strip :: "string \<Rightarrow> string" where
  "py_strip s = rev (dropWhile is_space (rev (dropWhile is_space s)))"

definition upper_char :: "char \<Rightarrow> char" where
  "upper_char c =
     (let n = (of_char c :: nat) in if 97 \<le> n \<and> n \<le> 122 then char_of (n - 32) else c)"

definition py_upper :: "string \<Rightarrow> string" where
  "py_upper s = map upper_char s"

section \<open>The Planner (agents/planner.py)\<close>

text \<open>
  A \<^verbatim>\<open>Planner\<close> holds a language model and a prompt loader; both are collaborators
  outside the core and are parameters here, as are \<^verbatim>\<open>json.loads\<close> and
  \<^verbatim>\<open>json.dumps\<close>.
  \<^item> \<open>planner_llm prompt temperature\<close> is \<^verbatim>\<open>self.llm.generate(prompt, temperature=t)\<close>
    (\<open>None\<close> when the keyword is not passed); it returns the text or raises.
  \<^item> \<open>planner_prompts name variables\<close> is \<^verbatim>\<open>self.prompt_loader.load(name, **variables)\<close>.
  \<^item> \<open>json_loads text\<close> is \<^verbatim>\<open>json.loads(text)\<close> read at the type \<^verbatim>\<open>PlanStructure\<close>;
    \<open>None\<close> is \<^verbatim>\<open>json.JSONDecodeError\<close>. The texts it is given begin with an opening
    brace, so what parses is a JSON object.
  \<^item> \<open>json_dumps plan\<close> is \<^verbatim>\<open>json.dumps(plan, indent=2)\<close>.
\<close>

datatype arg = AStr string | AInt int | ANone

record planner =
  planner_llm :: "string \<Rightarrow> rat option \<Rightarrow> exn + string"
  planner_prompts :: "string \<Rightarrow> (string \<times> arg) list \<Rightarrow> exn + string"
  json_loads :: "string \<Rightarrow> plan_structure option"
  json_dumps :: "plan_structure option \<Rightarrow> string"

text \<open>Python's truth test: a dictionary is true when it has a key, a string when it is
  not empty, \<^verbatim>\<open>None\<close> never.\<close>

definition plan_truthy :: "plan_structure option \<Rightarrow> bool" where
  "plan_truthy p \<longleftrightarrow>
     (case p of None \<Rightarrow> False
      | Some pl \<Rightarrow> research_goal pl \<noteq> None \<or> sub_tasks pl \<noteq> None \<or> completion_criteria pl \<noteq> None
          \<or> estimated_iterations pl \<noteq> None \<or> sub_task pl \<noteq> None)"

definition str_truthy :: "string option \<Rightarrow> bool" where
  "str_truthy s \<longleftrightarrow> (case s of None \<Rightarrow> False | Some t \<Rightarrow> t \<noteq> [])"

definition create_fallback_plan :: "string \<Rightarrow> plan_structure" where
  "create_fallback_plan q =
     \<lparr> research_goal = Some q,
       sub_tasks = Some [
         \<lparr> task_id = Some 1,
           description = Some (''Research: '' @ q),
           search_queries = Some [q],
           sources = Some [''tavily''],
           status = Some ''pending'',
           priority = Some (Some 1) \<rparr>],
       completion_criteria = Some ''Gather sufficient information to answer the query'',
       estimated_iterations = Some 2,
       sub_task = None \<rparr>"

text \<open>
  The tail of the \<^verbatim>\<open>try\<close> block of \<^verbatim>\<open>create_research_plan\<close>, which both the parsed
  plan and the fallback plan of the \<^verbatim>\<open>else\<close> branch go through: store the plan, set
  \<^verbatim>\<open>max_iterations\<close> to \<^verbatim>\<open>plan.get('estimated_iterations', 3)\<close>, and give the status
  \<^verbatim>\<open>'pending'\<close> to every task of \<^verbatim>\<open>plan.get('sub_task', [])\<close>. The tasks are changed
  in place, so the stored plan has them changed.
\<close>

definition store_plan :: "research_state \<Rightarrow> plan_structure \<Rightarrow> research_state" where
  "store_plan state plan =
     state\<lparr> research_plan :=
              Some (plan\<lparr> sub_task :=
                 map_option (map (\<lambda>task. task\<lparr> status := Some ''pending'' \<rparr>)) (sub_task plan) \<rparr>),
            max_iterations := (case estimated_iterations plan of None \<Rightarrow> 3 | Some n \<Rightarrow> n) \<rparr>"

definition create_research_plan :: "planner \<Rightarrow> research_state \<Rightarrow> exn + research_state" where
  "create_research_plan P state =
     (let q = query state;
          feedback = (case user_feedback state of
                        None \<Rightarrow> ANone
                      | Some f \<Rightarrow> if f \<noteq> [] then AStr f else ANone)
      in case planner_prompts P ''planner_create_plan''
                [(''query'', AStr q), (''user_feedback'', feedback)] of
           Inl e \<Rightarrow> Inl e
         | Inr prompt \<Rightarrow>
            (case planner_llm P prompt (Some (7 / 10)) of
               Inl e \<Rightarrow> Inl e
             | Inr response \<Rightarrow>
                (let start = py_find response CHR ''{'';
                     stop = py_rfind response CHR ''}'' + 1
                 in if start \<noteq> - 1 \<and> stop > start then
                      (case json_loads P (py_slice response start stop) of
                         Some plan \<Rightarrow> Inr (store_plan state plan)
                       | None \<Rightarrow>
                           Inr (state\<lparr> research_plan := Some (create_fallback_plan q) \<rparr>))
                    else Inr (store_plan state (create_fallback_plan q)))))"

definition modify_plan :: "planner \<Rightarrow> research_state \<Rightarrow> string \<Rightarrow> exn + research_state" where
  "modify_plan P state modifications =
     (let current_plan = research_plan state
      in case planner_prompts P ''planner_modify_plan''
                [(''current_plan'', AStr (json_dumps P current_plan)),
                 (''modifications'', AStr modifications)] of
           Inl e \<Rightarrow> Inl e
         | Inr prompt \<Rightarrow>
            (case planner_llm P prompt (Some (7 / 10)) of
               Inl e \<Rightarrow> Inl e
             | Inr response \<Rightarrow>
                (let start = py_find response CHR ''{'';
                     stop = py_rfind response CHR ''}'' + 1
                 in if start \<noteq> - 1 \<and> stop > start then
                      (case json_loads P (py_slice response start stop) of
                         Some modified_plan \<Rightarrow> Inr (state\<lparr> research_plan := Some modified_plan \<rparr>)
                       | None \<Rightarrow> Inr state)
                    else Inr state)))"

definition evaluate_context_sufficiency :: "planner \<Rightarrow> research_state \<Rightarrow> exn + bool" where
  "evaluate_context_sufficiency P state =
     (case research_results state of
        None \<Rightarrow> Inl (KeyError ''research_results'')
      | Some rs \<Rightarrow>
          if iteration_count state \<ge> max_iterations state then Inr False
          else if rs = [] then Inr False
          else (case research_plan state of
                  None \<Rightarrow> Inl (AttributeError ''get'')
                | Some plan \<Rightarrow>
                   (case planner_prompts P ''planner_evaluate_context''
                           [(''query'', AStr (query state)),
                            (''research_goal'',
                               AStr (case research_goal plan of None \<Rightarrow> query state | Some g \<Rightarrow> g)),
                            (''completion_criteria'',
                               AStr (case completion_criteria plan of None \<Rightarrow> ''N/A'' | Some c \<Rightarrow> c)),
                            (''results_count'', AInt (int (length rs))),
                            (''current_iteration'', AInt (iteration_count state + 1)),
                            (''max_iterations'', AInt (max_iterations state))] of
                      Inl e \<Rightarrow> Inl e
                    | Inr prompt \<Rightarrow>
                       (case planner_llm P prompt (Some (3 / 10)) of
                          Inl e \<Rightarrow> Inl e
                        | Inr response \<Rightarrow> Inr (py_upper (py_strip response) = ''YES'')))))"

text \<open>
  The sort key \<^verbatim>\<open>(t.get('priority', 99), t.get('task_id', 0))\<close>: its first component
  is \<^verbatim>\<open>None\<close> when the key \<^verbatim>\<open>priority\<close> is there with the value \<^verbatim>\<open>None\<close>.
\<close>

definition task_key :: "subtask \<Rightarrow> int option \<times> int" where
  "task_key t =
     (case priority t of None \<Rightarrow> Some 99 | Some p \<Rightarrow> p, case task_id t of None \<Rightarrow> 0 | Some i \<Rightarrow> i)"

text \<open>
  \<^verbatim>\<open>sorted(tasks, key=...)\<close>. Python compares two keys at the first component where
  they differ: \<^verbatim>\<open>None\<close> against an integer raises \<^verbatim>\<open>TypeError\<close>, and two \<^verbatim>\<open>None\<close>
  are equal, so the ids decide. A sort cannot place a key with \<^verbatim>\<open>None\<close> and a key
  with an integer without comparing two such keys, so \<^verbatim>\<open>sorted\<close> raises exactly when
  the list has both. On a list that has only one of the two kinds, Python's order is
  the lexicographic order of the pairs here, and \<^verbatim>\<open>sorted\<close> is stable, as \<open>sort_key\<close>
  is; a list has one stable sorted arrangement, so the two agree.
\<close>

definition py_sorted :: "subtask list \<Rightarrow> exn + subtask list" where
  "py_sorted ts =
     (if list_ex (\<lambda>t. fst (task_key t) = None) ts \<and> list_ex (\<lambda>t. fst (task_key t) \<noteq> None) ts
      then Inl (TypeError ''< not supported between instances of NoneType and int'')
      else Inr (sort_key task_key ts))"

definition get_next_task :: "research_state \<Rightarrow> exn + subtask option" where
  "get_next_task state =
     (let plan = research_plan state
      in if \<not> plan_truthy plan then Inr None
         else (case plan of
                 None \<Rightarrow> Inr None
               | Some pl \<Rightarrow>
                   (case py_sorted (case sub_tasks pl of None \<Rightarrow> [] | Some ts \<Rightarrow> ts) of
                      Inl e \<Rightarrow> Inl e
                    | Inr tasks \<Rightarrow> Inr (find (\<lambda>task. status task = Some ''pending'') tasks))))"

section \<open>The loop decision (workflow/nodes.py)\<close>

definition should_generate_report :: "planner \<Rightarrow> research_state \<Rightarrow> exn + string" where
  "should_generate_report P state =
     (if iteration_count state \<ge> max_iterations state then Inr ''rapporteur''
      else (case evaluate_context_sufficiency P state of
              Inl e \<Rightarrow> Inl e
            | Inr sufficient \<Rightarrow>
                if sufficient then Inr ''rapporteur''
                else (case get_next_task state of
                        Inl e \<Rightarrow> Inl e
                      | Inr (Some next_task) \<Rightarrow> Inr ''researcher''
                      | Inr None \<Rightarrow> Inr ''rapporteur'')))"

section \<open>The Researcher (agents/researcher.py)\<close>

text \<open>
  The three search tools are collaborators: each is a function from the query to the
  batch it returns, or to the exception it raises. \<open>tavily\<close> and \<open>mcp\<close> are \<open>None\<close>
  when the constructor got no API key or no server URL; \<open>arxiv\<close> is always there.
\<close>

record researcher =
  tavily :: "(string \<Rightarrow> exn + search_result) option"
  arxiv :: "string \<Rightarrow> exn + search_result"
  mcp :: "(string \<Rightarrow> exn + search_result) option"

text \<open>\<^verbatim>\<open>_search\<close>: the \<^verbatim>\<open>try\<close> block yields the tool's batch, \<^verbatim>\<open>None\<close>, or an exception;
  \<^verbatim>\<open>except Exception\<close> turns the exception into a batch.\<close>

definition search :: "researcher \<Rightarrow> string \<Rightarrow> string \<Rightarrow> search_result option" where
  "search R q source =
     (let attempt =
           (if source = ''tavily'' \<and> tavily R \<noteq> None then map_sum id Some (the (tavily R) q)
            else if source = ''arxiv'' then map_sum id Some (arxiv R q)
            else if source = ''mcp'' \<and> mcp R \<noteq> None then map_sum id Some (the (mcp R) q)
            else Inr None)
      in case attempt of
           Inr result \<Rightarrow> result
         | Inl e \<Rightarrow>
             Some \<lparr> result_task_id = None, result_query = q, result_source = source,
                    results = [], timestamp = None, error = Some (exn_str e) \<rparr>)"

text \<open>The body of the two nested loops of \<^verbatim>\<open>execute_task\<close>, over the pairs in the order
  the loops visit them. \<^verbatim>\<open>task['task_id']\<close> raises when the task has no id.\<close>

fun run_searches ::
  "researcher \<Rightarrow> subtask \<Rightarrow> (string \<times> string) list \<Rightarrow> exn + search_result list" where
  "run_searches R task [] = Inr []"
| "run_searches R task ((q, source) # pairs) =
     (case search R q source of
        None \<Rightarrow> run_searches R task pairs
      | Some result \<Rightarrow>
          (case task_id task of
             None \<Rightarrow> Inl (KeyError ''task_id'')
           | Some i \<Rightarrow>
               (case run_searches R task pairs of
                  Inl e \<Rightarrow> Inl e
                | Inr rest \<Rightarrow> Inr (result\<lparr> result_task_id := Some i \<rparr> # rest))))"

text \<open>The last loop of \<^verbatim>\<open>execute_task\<close>: the first sub-task with the task's id gets the
  status \<^verbatim>\<open>'completed'\<close>, and the loop stops there.\<close>

fun mark_completed :: "subtask \<Rightarrow> subtask list \<Rightarrow> exn + subtask list" where
  "mark_completed task [] = Inr []"
| "mark_completed task (t # ts) =
     (case task_id task of
        None \<Rightarrow> Inl (KeyError ''task_id'')
      | Some i \<Rightarrow>
          if task_id t = Some i then Inr (t\<lparr> status := Some ''completed'' \<rparr> # ts)
          else (case mark_completed task ts of
                  Inl e \<Rightarrow> Inl e
                | Inr ts' \<Rightarrow> Inr (t # ts')))"

definition execute_task :: "researcher \<Rightarrow> research_state \<Rightarrow> subtask \<Rightarrow> exn + research_state" where
  "execute_task R state task =
     (case run_searches R task
             (List.product (case search_queries task of None \<Rightarrow> [] | Some qs \<Rightarrow> qs)
                           (case sources task of None \<Rightarrow> [] | Some srcs \<Rightarrow> srcs)) of
        Inl e \<Rightarrow> Inl e
      | Inr new_results \<Rightarrow>
          (let state1 = state\<lparr> research_results :=
                  Some ((case research_results state of None \<Rightarrow> [] | Some old \<Rightarrow> old) @ new_results) \<rparr>
           in if plan_truthy (research_plan state1) then
                (case research_plan state1 of
                   None \<Rightarrow> Inr state1
                 | Some pl \<Rightarrow>
                    (case sub_tasks pl of
                       None \<Rightarrow> Inr state1
                     | Some ts \<Rightarrow>
                        (case mark_completed task ts of
                           Inl e \<Rightarrow> Inl e
                         | Inr ts' \<Rightarrow>
                             Inr (state1\<lparr> research_plan := Some (pl\<lparr> sub_tasks := Some ts' \<rparr>) \<rparr>))))
              else Inr state1))"

section \<open>The Coordinator (agents/coordinator.py)\<close>

record coordinator =
  coordinator_llm :: "string \<Rightarrow> rat option \<Rightarrow> exn + string"
  coordinator_prompts :: "string \<Rightarrow> (string \<times> arg) list \<Rightarrow> exn + string"

definition classify_query :: "coordinator \<Rightarrow> string \<Rightarrow> exn + string" where
  "classify_query C user_query =
     (case coordinator_prompts C ''coordinator_classify_query'' [(''user_query'', AStr user_query)] of
        Inl e \<Rightarrow> Inl e
      | Inr prompt \<Rightarrow>
         (case coordinator_llm C prompt None of
            Inl e \<Rightarrow> Inl e
          | Inr response \<Rightarrow>
              (let qt = py_upper (py_strip response)
               in Inr (if qt \<notin> set [''GREETING'', ''INAPPROPRIATE'', ''RESEARCH'']
                       then ''RESEARCH'' else qt))))"

definition handle_simple_query :: "coordinator \<Rightarrow> string \<Rightarrow> string \<Rightarrow> exn + string" where
  "handle_simple_query C user_query qt =
     (case coordinator_prompts C ''coordinator_simple_response''
             [(''user_query'', AStr user_query), (''query_type'', AStr qt)] of
        Inl e \<Rightarrow> Inl e
      | Inr prompt \<Rightarrow>
         (case coordinator_llm C prompt None of
            Inl e \<Rightarrow> Inl e
          | Inr response \<Rightarrow> Inr (py_strip response)))"

definition initialize_research ::
  "coordinator \<Rightarrow> string \<Rightarrow> bool \<Rightarrow> string \<Rightarrow> exn + research_state" where
  "initialize_research C user_query auto output =
     (case classify_query C user_query of
        Inl e \<Rightarrow> Inl e
      | Inr qt \<Rightarrow>
         (let state =
                \<lparr> query = user_query,
                  query_type = Some qt,
                  research_plan = None,
                  plan_approved = False,
                  research_results = Some [],
                  current_task = None,
                  iteration_count = 0,
                  max_iterations = 5,
                  final_report = None,
                  current_step = ''initializing'',
                  needs_more_research = True,
                  user_feedback = None,
                  auto_approve = auto,
                  simple_response = None,
                  output_format = output \<rparr>
          in if qt \<in> set [''GREETING'', ''INAPPROPRIATE''] then
               (case handle_simple_query C user_query qt of
                  Inl e \<Rightarrow> Inl e
                | Inr response \<Rightarrow>
                    Inr (state\<lparr> simple_response := Some response,
                                current_step := ''completed'',
                                needs_more_research := False \<rparr>))
             else Inr state))"

definition delegate_to_planner :: "research_state \<Rightarrow> research_state" where
  "delegate_to_planner state = state\<lparr> current_step := ''planning'' \<rparr>"

section \<open>The nodes (workflow/nodes.py)\<close>

definition coordinator_node :: "research_state \<Rightarrow> research_state" where
  "coordinator_node state =
     (if query_type state \<in> set [Some ''GREETING'', Some ''INAPPROPRIATE'']
      then state\<lparr> current_step := ''completed'' \<rparr>
      else delegate_to_planner (state\<lparr> current_step := ''coordinating'' \<rparr>))"

definition should_continue_to_planner :: "research_state \<Rightarrow> string" where
  "should_continue_to_planner state =
     (if query_type state \<in> set [Some ''GREETING'', Some ''INAPPROPRIATE'']
      then ''end'' else ''planner'')"

definition planner_node :: "planner \<Rightarrow> research_state \<Rightarrow> exn + research_state" where
  "planner_node P state =
     (let state1 = state\<lparr> current_step := ''planning'' \<rparr>
      in if str_truthy (user_feedback state1) \<and> plan_truthy (research_plan state1)
         then modify_plan P state1 (case user_feedback state1 of None \<Rightarrow> [] | Some f \<Rightarrow> f)
         else if \<not> plan_truthy (research_plan state1) then create_research_plan P state1
         else Inr state1)"

text \<open>
  \<^verbatim>\<open>researcher_node\<close> ends with \<^verbatim>\<open>state['current_task'] = next_task\<close>. The task is an
  object of the plan's list, which \<^verbatim>\<open>execute_task\<close> may have changed in place: it has,
  exactly when the task is the first sub-task with its id. (\<open>get_next_task\<close> picks the
  first pending task of the stable sort, so an earlier sub-task with the same id and equal
  fields would have been picked instead: two objects with equal fields are one object.)
\<close>

definition task_after :: "research_state \<Rightarrow> subtask \<Rightarrow> subtask" where
  "task_after state task =
     (case research_plan state of
        None \<Rightarrow> task
      | Some pl \<Rightarrow>
          if find (\<lambda>t. task_id t = task_id task) (case sub_tasks pl of None \<Rightarrow> [] | Some ts \<Rightarrow> ts)
               = Some task
          then task\<lparr> status := Some ''completed'' \<rparr> else task)"

definition researcher_node :: "researcher \<Rightarrow> research_state \<Rightarrow> exn + research_state" where
  "researcher_node R state =
     (let state1 = state\<lparr> current_step := ''researching'' \<rparr>
      in case get_next_task state1 of
           Inl e \<Rightarrow> Inl e
         | Inr (Some next_task) \<Rightarrow>
             (case execute_task R (state1\<lparr> iteration_count := iteration_count state1 + 1 \<rparr>)
                     next_task of
                Inl e \<Rightarrow> Inl e
              | Inr state2 \<Rightarrow> Inr (state2\<lparr> current_task := Some (task_after state1 next_task) \<rparr>))
         | Inr None \<Rightarrow> Inr (state1\<lparr> needs_more_research := False \<rparr>))"

section \<open>The run up to the review (workflow/graph.py)\<close>

text \<open>
  \<^verbatim>\<open>ResearchWorkflow.run\<close> builds the initial state, stores the caller's
  \<^verbatim>\<open>max_iterations\<close> when it is given and not zero, and invokes the graph. The graph of
  \<^verbatim>\<open>create_research_graph\<close> goes from the start to the coordinator node, from there to
  the end or to the planner node, and is interrupted before the human review, where
  the invocation returns the state.
\<close>

definition run ::
  "coordinator \<Rightarrow> planner \<Rightarrow> string \<Rightarrow> int option \<Rightarrow> bool \<Rightarrow> string \<Rightarrow> exn + research_state" where
  "run C P q max_iter auto output =
     (case initialize_research C q auto output of
        Inl e \<Rightarrow> Inl e
      | Inr initial_state \<Rightarrow>
         (let initial_state1 =
                (case max_iter of
                   None \<Rightarrow> initial_state
                 | Some m \<Rightarrow> if m \<noteq> 0 then initial_state\<lparr> max_iterations := m \<rparr> else initial_state);
              state = coordinator_node initial_state1
          in if should_continue_to_planner state = ''planner'' then planner_node P state
             else Inr state))"

section \<open>Vocabulary of the statements\<close>

text \<open>
  What the backend answers at each of the Planner's three calls: the prompt is loaded
  with the variables the source passes, and the model is called at the temperature the
  source passes.
\<close>

definition create_reply :: "planner \<Rightarrow> research_state \<Rightarrow> exn + string" where
  "create_reply P state =
     (case planner_prompts P ''planner_create_plan''
             [(''query'', AStr (query state)),
              (''user_feedback'',
                 case user_feedback state of
                   None \<Rightarrow> ANone
                 | Some f \<Rightarrow> if f \<noteq> [] then AStr f else ANone)] of
        Inl e \<Rightarrow> Inl e
      | Inr prompt \<Rightarrow> planner_llm P prompt (Some (7 / 10)))"

definition modify_reply :: "planner \<Rightarrow> research_state \<Rightarrow> string \<Rightarrow> exn + string" where
  "modify_reply P state modifications =
     (case planner_prompts P ''planner_modify_plan''
             [(''current_plan'', AStr (json_dumps P (research_plan state))),
              (''modifications'', AStr modifications)] of
        Inl e \<Rightarrow> Inl e
      | Inr prompt \<Rightarrow> planner_llm P prompt (Some (7 / 10)))"

definition evaluate_reply ::
  "planner \<Rightarrow> research_state \<Rightarrow> plan_structure \<Rightarrow> search_result list \<Rightarrow> exn + string" where
  "evaluate_reply P state plan rs =
     (case planner_prompts P ''planner_evaluate_context''
             [(''query'', AStr (query state)),
              (''research_goal'',
                 AStr (case research_goal plan of None \<Rightarrow> query state | Some g \<Rightarrow> g)),
              (''completion_criteria'',
                 AStr (case completion_criteria plan of None \<Rightarrow> ''N/A'' | Some c \<Rightarrow> c)),
              (''results_count'', AInt (int (length rs))),
              (''current_iteration'', AInt (iteration_count state + 1)),
              (''max_iterations'', AInt (max_iterations state))] of
        Inl e \<Rightarrow> Inl e
      | Inr prompt \<Rightarrow> planner_llm P prompt (Some (3 / 10)))"

text \<open>The guard of the extraction, and the text it hands to \<^verbatim>\<open>json.loads\<close>.\<close>

definition delimited :: "string \<Rightarrow> bool" where
  "delimited response \<longleftrightarrow>
     py_find response CHR ''{'' \<noteq> - 1
     \<and> py_rfind response CHR ''}'' + 1 > py_find response CHR ''{''"

definition json_text :: "string \<Rightarrow> string" where
  "json_text response =
     py_slice response (py_find response CHR ''{'') (py_rfind response CHR ''}'' + 1)"

text \<open>The sub-tasks of the state's plan; none when there is no plan or no list.\<close>

definition plan_tasks :: "research_state \<Rightarrow> subtask list" where
  "plan_tasks state =
     (case research_plan state of
        None \<Rightarrow> []
      | Some pl \<Rightarrow> (case sub_tasks pl of None \<Rightarrow> [] | Some ts \<Rightarrow> ts))"

text \<open>The order of the task queue in the specification's words: priority ascending,
  then id ascending, a missing priority counting as 99 and a missing id as 0. A priority
  is missing when the key is absent and when its value is \<^verbatim>\<open>None\<close>.\<close>

definition effective_priority :: "subtask \<Rightarrow> int" where
  "effective_priority t = (case priority t of None \<Rightarrow> 99 | Some None \<Rightarrow> 99 | Some (Some p) \<Rightarrow> p)"

definition effective_id :: "subtask \<Rightarrow> int" where
  "effective_id t = (case task_id t of None \<Rightarrow> 0 | Some i \<Rightarrow> i)"

definition precedes :: "subtask \<Rightarrow> subtask \<Rightarrow> bool" where
  "precedes t u \<longleftrightarrow>
     effective_priority t < effective_priority u
     \<or> (effective_priority t = effective_priority u \<and> effective_id t \<le> effective_id u)"

text \<open>Some sub-task has the priority \<^verbatim>\<open>None\<close> and some sub-task has an integer priority
  (its own, or the default of the absent key).\<close>

definition mixed_priorities :: "subtask list \<Rightarrow> bool" where
  "mixed_priorities ts \<longleftrightarrow>
     list_ex (\<lambda>t. priority t = Some None) ts \<and> list_ex (\<lambda>t. priority t \<noteq> Some None) ts"

definition pending :: "subtask \<Rightarrow> bool" where
  "pending t \<longleftrightarrow> status t = Some ''pending''"

text \<open>The batches the state held before a call.\<close>

definition old_results :: "research_state \<Rightarrow> search_result list" where
  "old_results state = (case research_results state of None \<Rightarrow> [] | Some old \<Rightarrow> old)"

text \<open>The batches that \<^verbatim>\<open>_search\<close> yields on the pairs of the queries and the sources, in
  the order of the loops, with the task id \<open>i\<close> on each.\<close>

definition tagged_batches ::
  "researcher \<Rightarrow> int \<Rightarrow> string list \<Rightarrow> string list \<Rightarrow> search_result list" where
  "tagged_batches R i qs srcs =
     map (\<lambda>r. r\<lparr> result_task_id := Some i \<rparr>)
       (List.map_filter (\<lambda>(q, source). search R q source) (List.product qs srcs))"

text \<open>The tool that \<^verbatim>\<open>_search\<close> invokes for the source raises \<open>e\<close> on the query.\<close>

definition tool_raises :: "researcher \<Rightarrow> string \<Rightarrow> string \<Rightarrow> exn \<Rightarrow> bool" where
  "tool_raises R q source e \<longleftrightarrow>
     (source = ''tavily'' \<and> (case tavily R of None \<Rightarrow> False | Some tool \<Rightarrow> tool q = Inl e))
     \<or> (source = ''arxiv'' \<and> arxiv R q = Inl e)
     \<or> (source = ''mcp'' \<and> (case mcp R of None \<Rightarrow> False | Some tool \<Rightarrow> tool q = Inl e))"

text \<open>The source names no supported tool, or a tool that was not configured.\<close>

definition source_unavailable :: "researcher \<Rightarrow> string \<Rightarrow> bool" where
  "source_unavailable R source \<longleftrightarrow>
     (source = ''tavily'' \<and> tavily R = None)
     \<or> (source = ''mcp'' \<and> mcp R = None)
     \<or> source \<notin> set [''tavily'', ''arxiv'', ''mcp'']"

text \<open>The marking loop for a task that has the id \<open>i\<close>.\<close>

fun mark_first :: "int \<Rightarrow> subtask list \<Rightarrow> subtask list" where
  "mark_first i [] = []"
| "mark_first i (t # ts) =
     (if task_id t = Some i then t\<lparr> status := Some ''completed'' \<rparr> # ts else t # mark_first i ts)"

text \<open>The plan of the state after \<^verbatim>\<open>execute_task\<close> has the task marked: when the task
  stands in the plan's list and no sub-task before it has its id, it is the one whose
  status becomes \<^verbatim>\<open>'completed'\<close>, and no other sub-task changes.\<close>

definition marks_completed :: "research_state \<Rightarrow> subtask \<Rightarrow> research_state \<Rightarrow> bool" where
  "marks_completed s task s' \<longleftrightarrow>
     (\<forall>pl before after.
        research_plan s = Some pl \<and> sub_tasks pl = Some (before @ task # after)
        \<and> (\<forall>t \<in> set before. task_id t \<noteq> task_id task)
        \<longrightarrow> research_plan s'
              = Some (pl\<lparr> sub_tasks := Some (before @ task\<lparr> status := Some ''completed'' \<rparr> # after) \<rparr>))"

section \<open>Concrete inputs\<close>

definition scripted_planner :: "string \<Rightarrow> plan_structure option \<Rightarrow> planner" where
  "scripted_planner reply parsed =
     \<lparr> planner_llm = (\<lambda>prompt temperature. Inr reply),
       planner_prompts = (\<lambda>name variables. Inr name),
       json_loads = (\<lambda>text. parsed),
       json_dumps = (\<lambda>plan. ''{}'') \<rparr>"

definition research_coordinator :: coordinator where
  "research_coordinator =
     \<lparr> coordinator_llm = (\<lambda>prompt temperature. Inr '' research ''),
       coordinator_prompts = (\<lambda>name variables. Inr name) \<rparr>"

definition task_a :: subtask where
  "task_a =
     \<lparr> task_id = Some 1, description = Some ''background'',
       search_queries = Some [''solar cells''], sources = Some [''arxiv''],
       status = Some ''pending'', priority = Some (Some 2) \<rparr>"

definition task_b :: subtask where
  "task_b =
     \<lparr> task_id = Some 2, description = Some ''materials'',
       search_queries = Some [''perovskite''], sources = Some [''wiki''],
       status = Some ''pending'', priority = Some (Some 1) \<rparr>"

definition task_c :: subtask where
  "task_c =
     \<lparr> task_id = Some 3, description = Some ''history'',
       search_queries = Some [''photovoltaics''], sources = Some [''tavily''],
       status = Some ''completed'', priority = None \<rparr>"

definition task_n :: subtask where
  "task_n =
     \<lparr> task_id = Some 4, description = Some ''outlook'',
       search_queries = Some [''tandem cells''], sources = Some [''arxiv''],
       status = Some ''pending'', priority = Some None \<rparr>"

definition demo_plan :: plan_structure where
  "demo_plan =
     \<lparr> research_goal = Some ''solar cells'', sub_tasks = Some [task_a, task_b, task_c],
       completion_criteria = None, estimated_iterations = Some 3, sub_task = None \<rparr>"

definition done_plan :: plan_structure where
  "done_plan =
     \<lparr> research_goal = Some ''solar cells'', sub_tasks = Some [task_c],
       completion_criteria = None, estimated_iterations = None, sub_task = None \<rparr>"

definition empty_plan :: plan_structure where
  "empty_plan =
     \<lparr> research_goal = Some ''solar cells'', sub_tasks = Some [],
       completion_criteria = None, estimated_iterations = Some 3, sub_task = None \<rparr>"

definition timeout_batch :: search_result where
  "timeout_batch =
     \<lparr> result_task_id = Some 1, result_query = ''solar cells'', result_source = ''arxiv'',
       results = [], timestamp = None, error = Some ''timeout'' \<rparr>"

definition start_state :: research_state where
  "start_state =
     \<lparr> query = ''solar cells'', query_type = Some ''RESEARCH'', research_plan = None,
       plan_approved = False, research_results = Some [], current_task = None,
       iteration_count = 0, max_iterations = 5, final_report = None,
       current_step = ''initializing'', needs_more_research = True, user_feedback = None,
       auto_approve = False, simple_response = None, output_format = ''markdown'' \<rparr>"

definition planned_state :: research_state where
  "planned_state = start_state\<lparr> research_plan := Some demo_plan, max_iterations := 3 \<rparr>"

definition null_priority_state :: research_state where
  "null_priority_state =
     start_state\<lparr> research_plan := Some (demo_plan\<lparr> sub_tasks := Some [task_n, task_b] \<rparr>),
                  max_iterations := 3 \<rparr>"

definition task_d :: subtask where
  "task_d =
     \<lparr> task_id = Some 5, description = Some ''thin film'',
       search_queries = Some [''thin film''], sources = Some [''tavily'', ''arxiv''],
       status = Some ''pending'', priority = Some (Some 1) \<rparr>"

definition two_source_state :: research_state where
  "two_source_state =
     start_state\<lparr> research_plan := Some (demo_plan\<lparr> sub_tasks := Some [task_a, task_d] \<rparr>),
                  max_iterations := 3 \<rparr>"

definition offline_researcher :: researcher where
  "offline_researcher =
     \<lparr> tavily = None, arxiv = (\<lambda>q. Inl (Failure ''timeout'')), mcp = None \<rparr>"

section \<open>Lemmas on the extraction\<close>

lemma create_research_plan_reply:
  "create_research_plan P s =
     (case create_reply P s of
        Inl e \<Rightarrow> Inl e
      | Inr r \<Rightarrow>
          if delimited r then
            (case json_loads P (json_text r) of
               Some plan \<Rightarrow> Inr (store_plan s plan)
             | None \<Rightarrow> Inr (s\<lparr> research_plan := Some (create_fallback_plan (query s)) \<rparr>))
          else Inr (store_plan s (create_fallback_plan (query s))))"
  by (simp add: create_research_plan_def create_reply_def delimited_def json_text_def Let_def
           split: sum.splits option.splits)

lemma modify_plan_reply:
  "modify_plan P s m =
     (case modify_reply P s m of
        Inl e \<Rightarrow> Inl e
      | Inr r \<Rightarrow>
          if delimited r then
            (case json_loads P (json_text r) of
               Some plan \<Rightarrow> Inr (s\<lparr> research_plan := Some plan \<rparr>)
             | None \<Rightarrow> Inr s)
          else Inr s)"
  by (simp add: modify_plan_def modify_reply_def delimited_def json_text_def Let_def
           split: sum.splits option.splits)

lemma find_from_range: "find_from c s i = - 1 \<or> i \<le> find_from c s i"
  by (induction s arbitrary: i) (auto, force)

lemma find_from_absent: "0 \<le> i \<Longrightarrow> (find_from c s i = - 1) = (c \<notin> set s)"
proof (induction s arbitrary: i)
  case Nil
  then show ?case by simp
next
  case (Cons x xs)
  have "0 \<le> i + 1" using Cons.prems by simp
  from Cons.IH [OF this] show ?case using Cons.prems by auto
qed

lemma py_find_absent: "(py_find s c = - 1) = (c \<notin> set s)"
  by (simp add: py_find_def find_from_absent)

lemma rfind_from_absent: "c \<notin> set s \<Longrightarrow> rfind_from c s i found = found"
  by (induction s arbitrary: i found) auto

lemma py_rfind_absent: "c \<notin> set s \<Longrightarrow> py_rfind s c = - 1"
  by (simp add: py_rfind_def rfind_from_absent)

lemma py_find_lower: "- 1 \<le> py_find s c"
  using find_from_range [of c s 0] by (auto simp: py_find_def)

lemma no_delimiters: "CHR ''{'' \<notin> set r \<or> CHR ''}'' \<notin> set r \<Longrightarrow> \<not> delimited r"
  using py_find_lower [of r "CHR ''{''"]
  by (auto simp: delimited_def py_find_absent py_rfind_absent)

lemma scripted_create_reply [simp]: "create_reply (scripted_planner reply parsed) s = Inr reply"
  by (simp add: create_reply_def scripted_planner_def)

lemma scripted_modify_reply [simp]: "modify_reply (scripted_planner reply parsed) s m = Inr reply"
  by (simp add: modify_reply_def scripted_planner_def)

lemma scripted_evaluate_reply [simp]:
  "evaluate_reply (scripted_planner reply parsed) s pl rs = Inr reply"
  by (simp add: evaluate_reply_def scripted_planner_def)

lemma scripted_json_loads [simp]: "json_loads (scripted_planner reply parsed) text = parsed"
  by (simp add: scripted_planner_def)

lemma delimited_braces: "delimited ''{plan}''"
  by (simp add: delimited_def py_find_def py_rfind_def)

lemma not_delimited_plain: "\<not> delimited ''no plan''"
  by (simp add: delimited_def py_find_def py_rfind_def)

section \<open>Lemmas on the task queue\<close>

lemma py_sorted_mixed: "py_sorted ts = (if mixed_priorities ts
     then Inl (TypeError ''< not supported between instances of NoneType and int'')
     else Inr (sort_key task_key ts))"
proof -
  have "fst (task_key t) = None \<longleftrightarrow> priority t = Some None" for t
    by (simp add: task_key_def split: option.splits)
  then show ?thesis by (simp add: py_sorted_def mixed_priorities_def)
qed

lemma get_next_task_find:
  "\<not> mixed_priorities (plan_tasks s) \<Longrightarrow>
   get_next_task s
     = Inr (find (\<lambda>task. status task = Some ''pending'') (sort_key task_key (plan_tasks s)))"
  by (auto simp: get_next_task_def plan_tasks_def plan_truthy_def py_sorted_mixed Let_def
        mixed_priorities_def split: option.splits)

lemma get_next_task_mixed:
  "mixed_priorities (plan_tasks s) \<Longrightarrow>
   get_next_task s = Inl (TypeError ''< not supported between instances of NoneType and int'')"
  by (auto simp: get_next_task_def plan_tasks_def plan_truthy_def py_sorted_mixed Let_def
        mixed_priorities_def split: option.splits)

lemma find_sorted_least:
  "sorted (map f ys) \<Longrightarrow> find P ys = Some t \<Longrightarrow> u \<in> set ys \<Longrightarrow> P u \<Longrightarrow> f t \<le> f u"
  by (induction ys) (auto split: if_splits)

lemma task_key_le:
  "(priority t = Some None) = (priority u = Some None) \<Longrightarrow>
   task_key t \<le> task_key u \<longleftrightarrow> precedes t u"
  by (auto simp: task_key_def precedes_def effective_priority_def effective_id_def
        split: option.splits)

lemma same_kind:
  "\<not> mixed_priorities ts \<Longrightarrow> t \<in> set ts \<Longrightarrow> u \<in> set ts \<Longrightarrow>
   (priority t = Some None) = (priority u = Some None)"
  by (auto simp: mixed_priorities_def list_ex_iff)

lemma demo_plan_uniform: "\<not> mixed_priorities [task_a, task_b, task_c]"
  by (simp add: mixed_priorities_def task_a_def task_b_def task_c_def)

lemma get_next_task_planned: "get_next_task planned_state = Inr (Some task_b)"
proof -
  have "plan_tasks planned_state = [task_a, task_b, task_c]"
    by (simp add: plan_tasks_def planned_state_def demo_plan_def)
  then show ?thesis
    using demo_plan_uniform
    by (simp add: get_next_task_find task_a_def task_b_def task_c_def task_key_def)
qed

text \<open>
  On a plan that does not mix the priority \<^verbatim>\<open>None\<close> with integer priorities,
  \<^verbatim>\<open>get_next_task\<close> returns; it returns \<^verbatim>\<open>None\<close> exactly when no sub-task is pending,
  and the task it returns is a pending sub-task that precedes every pending sub-task.
\<close>

lemma get_next_task_uniform:
  assumes "\<not> mixed_priorities (plan_tasks s)"
  shows "(\<exists>r. get_next_task s = Inr r)
    \<and> (get_next_task s = Inr None \<longleftrightarrow> (\<forall>t \<in> set (plan_tasks s). \<not> pending t))
    \<and> (\<forall>t. get_next_task s = Inr (Some t) \<longrightarrow>
          t \<in> set (plan_tasks s) \<and> pending t
          \<and> (\<forall>u \<in> set (plan_tasks s). pending u \<longrightarrow> precedes t u))"
proof (intro conjI allI impI)
  show "\<exists>r. get_next_task s = Inr r"
    using assms by (simp add: get_next_task_find)
  show "get_next_task s = Inr None \<longleftrightarrow> (\<forall>t \<in> set (plan_tasks s). \<not> pending t)"
    using assms by (auto simp: get_next_task_find find_None_iff pending_def)
next
  fix t
  assume found: "get_next_task s = Inr (Some t)"
  then have f: "find (\<lambda>task. status task = Some ''pending'') (sort_key task_key (plan_tasks s)) = Some t"
    using assms by (simp add: get_next_task_find)
  then obtain i where "i < length (sort_key task_key (plan_tasks s))"
    and "status (sort_key task_key (plan_tasks s) ! i) = Some ''pending''"
    and "t = sort_key task_key (plan_tasks s) ! i"
    unfolding find_Some_iff by blast
  then have "t \<in> set (sort_key task_key (plan_tasks s))" and p: "pending t"
    using nth_mem by (blast, simp add: pending_def)
  then show mem: "t \<in> set (plan_tasks s)" by simp
  show "pending t" by (rule p)
  show "\<forall>u \<in> set (plan_tasks s). pending u \<longrightarrow> precedes t u"
  proof (intro ballI impI)
    fix u
    assume u: "u \<in> set (plan_tasks s)" and "pending u"
    then have "u \<in> set (sort_key task_key (plan_tasks s))" and "status u = Some ''pending''"
      by (simp_all add: pending_def)
    with find_sorted_least [OF sorted_sort_key f] have "task_key t \<le> task_key u" by blast
    then show "precedes t u"
      using task_key_le [OF same_kind [OF assms mem u]] by simp
  qed
qed

section \<open>The claims on the Planner and the loop decision\<close>

text \<open>
  C1. Whenever \<open>iteration_count \<ge> max_iterations\<close>, \<^verbatim>\<open>should_generate_report\<close> returns
  \<^verbatim>\<open>"rapporteur"\<close>: whatever the planner (and so whatever the sufficiency check would
  say), and whatever tasks are still pending. The cap is checked first.
\<close>

theorem iteration_cap_first:
  "max_iterations s \<le> iteration_count s \<Longrightarrow> should_generate_report P s = Inr ''rapporteur''"
  by (simp add: should_generate_report_def)

theorem iteration_cap_first_witness:
  "max_iterations (planned_state\<lparr> iteration_count := 3 \<rparr>)
     \<le> iteration_count (planned_state\<lparr> iteration_count := 3 \<rparr>)
   \<and> get_next_task (planned_state\<lparr> iteration_count := 3 \<rparr>) = Inr (Some task_b)
   \<and> should_generate_report (scripted_planner ''NO'' None) (planned_state\<lparr> iteration_count := 3 \<rparr>)
       = Inr ''rapporteur''"
proof -
  have cap: "max_iterations (planned_state\<lparr> iteration_count := 3 \<rparr>)
               \<le> iteration_count (planned_state\<lparr> iteration_count := 3 \<rparr>)"
    by (simp add: planned_state_def start_state_def)
  have "get_next_task (planned_state\<lparr> iteration_count := 3 \<rparr>) = get_next_task planned_state"
    by (simp add: get_next_task_def)
  then show ?thesis
    using cap iteration_cap_first [OF cap, of "scripted_planner ''NO'' None"]
    by (simp add: get_next_task_planned)
qed

text \<open>
  C2, as the specification states it, fails: at \<open>iteration_count = 0\<close> with a batch in
  \<open>research_results\<close> and a backend that answers \<^verbatim>\<open>YES\<close>, the check returns \<open>True\<close>.
\<close>

theorem sufficiency_first_pass_counterexample:
  "iteration_count (planned_state\<lparr> research_results := Some [timeout_batch] \<rparr>) = 0
   \<and> research_results (planned_state\<lparr> research_results := Some [timeout_batch] \<rparr>) \<noteq> Some []
   \<and> evaluate_context_sufficiency (scripted_planner ''YES'' None)
        (planned_state\<lparr> research_results := Some [timeout_batch] \<rparr>) = Inr True"
  by (simp add: evaluate_context_sufficiency_def planned_state_def start_state_def
        scripted_planner_def py_upper_def py_strip_def is_space_def upper_char_def)

text \<open>
  C2, amended. The check returns \<open>False\<close> without consulting the backend (for every
  planner, also one whose backend raises) whenever \<open>research_results\<close> is empty or
  \<open>iteration_count \<ge> max_iterations\<close>. At \<open>iteration_count = 0\<close> below the cap, with a
  batch in \<open>research_results\<close> and a plan, it consults the backend and returns whether
  the reply, stripped and in upper case, is \<^verbatim>\<open>YES\<close>.
\<close>

theorem sufficiency_short_circuit:
  "(research_results s = Some rs \<and> (rs = [] \<or> max_iterations s \<le> iteration_count s)
      \<longrightarrow> evaluate_context_sufficiency P s = Inr False)
   \<and> (iteration_count s = 0 \<and> 0 < max_iterations s \<and> research_results s = Some rs \<and> rs \<noteq> []
        \<and> research_plan s = Some pl \<and> evaluate_reply P s pl rs = Inr reply
      \<longrightarrow> evaluate_context_sufficiency P s = Inr (py_upper (py_strip reply) = ''YES''))"
  by (auto simp: evaluate_context_sufficiency_def evaluate_reply_def split: sum.splits)

theorem sufficiency_short_circuit_witness:
  "research_results start_state = Some []
   \<and> evaluate_context_sufficiency (scripted_planner ''YES'' None) start_state = Inr False
   \<and> iteration_count (planned_state\<lparr> research_results := Some [timeout_batch] \<rparr>) = 0
   \<and> evaluate_reply (scripted_planner '' yes '' None)
        (planned_state\<lparr> research_results := Some [timeout_batch] \<rparr>) demo_plan [timeout_batch]
       = Inr '' yes ''
   \<and> evaluate_context_sufficiency (scripted_planner '' yes '' None)
        (planned_state\<lparr> research_results := Some [timeout_batch] \<rparr>) = Inr True"
proof -
  have a: "research_results start_state = Some []"
    by (simp add: start_state_def)
  have b: "py_upper (py_strip '' yes '') = ''YES''"
    by code_simp
  show ?thesis
    using a b
      sufficiency_short_circuit [of start_state "[]" "scripted_planner ''YES'' None"]
      sufficiency_short_circuit [of "planned_state\<lparr> research_results := Some [timeout_batch] \<rparr>"
        "[timeout_batch]" "scripted_planner '' yes '' None" demo_plan "'' yes ''"]
    by (simp add: planned_state_def start_state_def)
qed


text \<open>
  C3. When the backend's reply at plan creation has no opening or no closing brace,
  fails the guard of the extraction, or holds a text that does not parse,
  \<^verbatim>\<open>create_research_plan\<close> returns with \<open>research_plan\<close> set to the fallback plan: one
  pending sub-task whose only search query is the whole query, and
  \<open>estimated_iterations = 2\<close>.
\<close>

theorem create_plan_fallback:
  assumes "create_reply P s = Inr r"
    and "CHR ''{'' \<notin> set r \<or> CHR ''}'' \<notin> set r \<or> \<not> delimited r
         \<or> json_loads P (json_text r) = None"
  shows "\<exists>s' pl t. create_research_plan P s = Inr s'
           \<and> research_plan s' = Some pl \<and> pl = create_fallback_plan (query s)
           \<and> sub_tasks pl = Some [t] \<and> search_queries t = Some [query s]
           \<and> status t = Some ''pending'' \<and> estimated_iterations pl = Some 2"
proof -
  have "\<not> delimited r \<or> json_loads P (json_text r) = None"
    using assms(2) no_delimiters [of r] by auto
  then have "create_research_plan P s = Inr (store_plan s (create_fallback_plan (query s)))
    \<or> create_research_plan P s = Inr (s\<lparr> research_plan := Some (create_fallback_plan (query s)) \<rparr>)"
    using assms(1) by (auto simp: create_research_plan_reply)
  then show ?thesis
    by (auto simp: store_plan_def create_fallback_plan_def)
qed

theorem create_plan_fallback_witness:
  "create_reply (scripted_planner ''no plan'' None) start_state = Inr ''no plan''
   \<and> CHR ''{'' \<notin> set ''no plan''
   \<and> create_reply (scripted_planner ''{plan}'' None) start_state = Inr ''{plan}''
   \<and> json_loads (scripted_planner ''{plan}'' None) (json_text ''{plan}'') = None
   \<and> (\<exists>s'. create_research_plan (scripted_planner ''no plan'' None) start_state = Inr s'
          \<and> research_plan s' = Some (create_fallback_plan ''solar cells''))
   \<and> (\<exists>s'. create_research_plan (scripted_planner ''{plan}'' None) start_state = Inr s'
          \<and> research_plan s' = Some (create_fallback_plan ''solar cells''))"
proof -
  have q: "query start_state = ''solar cells''"
    by (simp add: start_state_def)
  have a: "create_reply (scripted_planner ''no plan'' None) start_state = Inr ''no plan''"
    by simp
  have b: "CHR ''{'' \<notin> set ''no plan''"
    by simp
  have c: "create_reply (scripted_planner ''{plan}'' None) start_state = Inr ''{plan}''"
    by simp
  have d: "json_loads (scripted_planner ''{plan}'' None) (json_text ''{plan}'') = None"
    by simp
  from create_plan_fallback [OF a] b
  have "\<exists>s'. create_research_plan (scripted_planner ''no plan'' None) start_state = Inr s'
          \<and> research_plan s' = Some (create_fallback_plan ''solar cells'')"
    unfolding q by blast
  moreover from create_plan_fallback [OF c] d
  have "\<exists>s'. create_research_plan (scripted_planner ''{plan}'' None) start_state = Inr s'
          \<and> research_plan s' = Some (create_fallback_plan ''solar cells'')"
    unfolding q by blast
  ultimately show ?thesis using a b c d by blast
qed

text \<open>
  C4. When the backend's reply at plan revision has no opening or no closing brace,
  fails the guard of the extraction, or holds a text that does not parse,
  \<^verbatim>\<open>modify_plan\<close> returns the state it was given: \<open>research_plan\<close> is the plan from
  before the call.
\<close>

theorem modify_plan_keeps_plan:
  assumes "modify_reply P s m = Inr r"
    and "CHR ''{'' \<notin> set r \<or> CHR ''}'' \<notin> set r \<or> \<not> delimited r
         \<or> json_loads P (json_text r) = None"
  shows "modify_plan P s m = Inr s \<and> (\<exists>s'. modify_plan P s m = Inr s' \<and> research_plan s' = research_plan s)"
proof -
  have "\<not> delimited r \<or> json_loads P (json_text r) = None"
    using assms(2) no_delimiters [of r] by auto
  then show ?thesis using assms(1) by (auto simp: modify_plan_reply)
qed

theorem modify_plan_keeps_plan_witness:
  "research_plan planned_state = Some demo_plan
   \<and> modify_reply (scripted_planner ''sorry}'' None) planned_state ''add sources'' = Inr ''sorry}''
   \<and> CHR ''{'' \<notin> set ''sorry}''
   \<and> modify_plan (scripted_planner ''sorry}'' None) planned_state ''add sources'' = Inr planned_state
   \<and> modify_reply (scripted_planner ''{plan}'' None) planned_state ''add sources'' = Inr ''{plan}''
   \<and> json_loads (scripted_planner ''{plan}'' None) (json_text ''{plan}'') = None
   \<and> modify_plan (scripted_planner ''{plan}'' None) planned_state ''add sources'' = Inr planned_state"
proof -
  have p: "research_plan planned_state = Some demo_plan"
    by (simp add: planned_state_def)
  have a: "modify_reply (scripted_planner ''sorry}'' None) planned_state ''add sources'' = Inr ''sorry}''"
    by simp
  have b: "CHR ''{'' \<notin> set ''sorry}''"
    by simp
  have c: "modify_reply (scripted_planner ''{plan}'' None) planned_state ''add sources'' = Inr ''{plan}''"
    by simp
  have d: "json_loads (scripted_planner ''{plan}'' None) (json_text ''{plan}'') = None"
    by simp
  from modify_plan_keeps_plan [OF a] b
  have "modify_plan (scripted_planner ''sorry}'' None) planned_state ''add sources'' = Inr planned_state"
    by blast
  moreover from modify_plan_keeps_plan [OF c] d
  have "modify_plan (scripted_planner ''{plan}'' None) planned_state ''add sources'' = Inr planned_state"
    by blast
  ultimately show ?thesis using p a b c d by blast
qed

text \<open>
  C5 holds of the specification and fails of the code. \<^verbatim>\<open>SubTask\<close> declares
  \<^verbatim>\<open>priority: Optional[int]\<close>; when a sub-task has the priority \<^verbatim>\<open>None\<close> and another
  has an integer priority, \<^verbatim>\<open>t.get('priority', 99)\<close> yields \<^verbatim>\<open>None\<close>, not 99, and the
  sort raises \<^verbatim>\<open>TypeError\<close>: \<^verbatim>\<open>get_next_task\<close> returns neither the pending task that
  the order puts first nor \<^verbatim>\<open>None\<close>. Here \<open>task_b\<close> is pending with priority 1 and is
  the task that the claim says is returned.
\<close>

theorem get_next_task_null_priority:
  "plan_tasks null_priority_state = [task_n, task_b]
   \<and> priority task_n = Some None \<and> priority task_b = Some (Some 1)
   \<and> pending task_n \<and> pending task_b
   \<and> precedes task_b task_n
   \<and> get_next_task null_priority_state
       = Inl (TypeError ''< not supported between instances of NoneType and int'')"
proof -
  have tasks: "plan_tasks null_priority_state = [task_n, task_b]"
    by (simp add: plan_tasks_def null_priority_state_def)
  have "mixed_priorities [task_n, task_b]"
    by (simp add: mixed_priorities_def task_n_def task_b_def)
  then have "get_next_task null_priority_state
       = Inl (TypeError ''< not supported between instances of NoneType and int'')"
    using get_next_task_mixed [of null_priority_state] tasks by simp
  then show ?thesis
    using tasks
    by (simp add: task_n_def task_b_def pending_def precedes_def effective_priority_def)
qed

text \<open>
  C7 holds of the specification and fails of the code. \<^verbatim>\<open>create_research_plan\<close>
  has a loop that sets the status \<^verbatim>\<open>'pending'\<close>, but over the tasks under the key
  \<^verbatim>\<open>'sub_task'\<close>, not \<^verbatim>\<open>'sub_tasks'\<close>; \<^verbatim>\<open>modify_plan\<close> has no such loop. So a reply
  that parses to a plan with a completed sub-task is stored with that sub-task completed,
  by the creation and by the revision.
\<close>

theorem plan_status_not_restamped:
  "sub_tasks done_plan = Some [task_c] \<and> status task_c = Some ''completed''
   \<and> create_research_plan (scripted_planner ''{plan}'' (Some done_plan)) start_state
       = Inr (start_state\<lparr> research_plan := Some done_plan, max_iterations := 3 \<rparr>)
   \<and> modify_plan (scripted_planner ''{plan}'' (Some done_plan)) planned_state ''add sources''
       = Inr (planned_state\<lparr> research_plan := Some done_plan \<rparr>)"
  by (simp add: create_research_plan_reply modify_plan_reply delimited_braces store_plan_def
        done_plan_def task_c_def)

section \<open>Lemmas on the run\<close>

lemma research_reply: "py_upper (py_strip '' research '') = ''RESEARCH''"
  by code_simp

lemma initialize_research_demo:
  "initialize_research research_coordinator ''solar cells'' False ''markdown'' = Inr start_state"
  by (simp add: initialize_research_def classify_query_def research_coordinator_def
        research_reply start_state_def)

lemma initialize_research_shape:
  assumes "initialize_research C q auto fmt = Inr s0" and "query_type s0 = Some ''RESEARCH''"
  shows "query s0 = q \<and> research_plan s0 = None \<and> user_feedback s0 = None"
  using assms
  by (auto simp: initialize_research_def Let_def split: sum.splits if_splits)

lemma create_reply_reads:
  "query s' = query s \<Longrightarrow> user_feedback s' = user_feedback s \<Longrightarrow> create_reply P s' = create_reply P s"
  by (simp add: create_reply_def)

lemma run_research:
  assumes "initialize_research C q auto fmt = Inr s0" and "query_type s0 = Some ''RESEARCH''"
  shows "\<exists>s1. run C P q m auto fmt = create_research_plan P s1
           \<and> query s1 = query s0 \<and> user_feedback s1 = user_feedback s0"
proof -
  have shape: "research_plan s0 = None \<and> user_feedback s0 = None"
    using initialize_research_shape [OF assms] by simp
  define s1 where "s1 = (case m of None \<Rightarrow> s0
     | Some k \<Rightarrow> if k \<noteq> 0 then s0\<lparr> max_iterations := k \<rparr> else s0)"
  have s1: "query_type s1 = Some ''RESEARCH'' \<and> research_plan s1 = None \<and> user_feedback s1 = None
     \<and> query s1 = query s0"
    using assms(2) shape by (simp add: s1_def split: option.splits)
  have "run C P q m auto fmt = create_research_plan P (s1\<lparr> current_step := ''planning'' \<rparr>)"
    using assms(1) s1
    by (simp add: run_def s1_def [symmetric] coordinator_node_def should_continue_to_planner_def
          delegate_to_planner_def planner_node_def str_truthy_def plan_truthy_def Let_def)
  then show ?thesis using s1 shape by (intro exI [of _ "s1\<lparr> current_step := ''planning'' \<rparr>"]) simp
qed

text \<open>
  C9. When the reply at plan creation fails the guard of the extraction,
  \<^verbatim>\<open>create_research_plan\<close> sets \<open>max_iterations\<close> to 2, the fallback plan's
  \<open>estimated_iterations\<close>; when the reply parses, it sets \<open>max_iterations\<close> to the parsed
  plan's \<open>estimated_iterations\<close>, or to 3 when the plan has none. In both cases the value
  that \<open>max_iterations\<close> had before is gone. So for a research query whose plan is created
  without a decode error, the state that \<^verbatim>\<open>ResearchWorkflow.run\<close> reaches after planning
  has the plan's value, whatever \<open>max_iterations\<close> the caller passed.
\<close>

theorem create_plan_overwrites_max_iterations:
  "(create_reply P s = Inr r \<and> \<not> delimited r
      \<longrightarrow> (\<exists>s'. create_research_plan P s = Inr s' \<and> max_iterations s' = 2))
   \<and> (create_reply P s = Inr r \<and> delimited r \<and> json_loads P (json_text r) = Some pl
      \<longrightarrow> (\<exists>s'. create_research_plan P s = Inr s'
              \<and> max_iterations s' = (case estimated_iterations pl of None \<Rightarrow> 3 | Some n \<Rightarrow> n)))
   \<and> (initialize_research C q auto fmt = Inr s0 \<and> query_type s0 = Some ''RESEARCH''
        \<and> create_reply P s0 = Inr r
        \<and> (\<not> delimited r \<or> json_loads P (json_text r) = Some pl)
      \<longrightarrow> (\<exists>s'. run C P q m auto fmt = Inr s'
              \<and> max_iterations s'
                  = (if delimited r
                     then (case estimated_iterations pl of None \<Rightarrow> 3 | Some n \<Rightarrow> n)
                     else 2)))"
proof (intro conjI impI)
  assume "create_reply P s = Inr r \<and> \<not> delimited r"
  then show "\<exists>s'. create_research_plan P s = Inr s' \<and> max_iterations s' = 2"
    by (simp add: create_research_plan_reply store_plan_def create_fallback_plan_def)
next
  assume "create_reply P s = Inr r \<and> delimited r \<and> json_loads P (json_text r) = Some pl"
  then show "\<exists>s'. create_research_plan P s = Inr s'
      \<and> max_iterations s' = (case estimated_iterations pl of None \<Rightarrow> 3 | Some n \<Rightarrow> n)"
    by (simp add: create_research_plan_reply store_plan_def)
next
  assume a: "initialize_research C q auto fmt = Inr s0 \<and> query_type s0 = Some ''RESEARCH''
        \<and> create_reply P s0 = Inr r
        \<and> (\<not> delimited r \<or> json_loads P (json_text r) = Some pl)"
  then obtain s1 where run: "run C P q m auto fmt = create_research_plan P s1"
    and same: "query s1 = query s0" "user_feedback s1 = user_feedback s0"
    using run_research [of C q auto fmt s0 P m] by blast
  have "create_reply P s1 = Inr r"
    using a create_reply_reads [OF same] by simp
  then show "\<exists>s'. run C P q m auto fmt = Inr s'
      \<and> max_iterations s'
          = (if delimited r
             then (case estimated_iterations pl of None \<Rightarrow> 3 | Some n \<Rightarrow> n)
             else 2)"
    using a run
    by (auto simp: create_research_plan_reply store_plan_def create_fallback_plan_def)
qed

theorem create_plan_overwrites_max_iterations_witness:
  "create_reply (scripted_planner ''no plan'' None) start_state = Inr ''no plan''
   \<and> \<not> delimited ''no plan''
   \<and> max_iterations start_state = 5
   \<and> (\<exists>s'. create_research_plan (scripted_planner ''no plan'' None) start_state = Inr s'
          \<and> max_iterations s' = 2)
   \<and> create_reply (scripted_planner ''{plan}'' (Some done_plan)) start_state = Inr ''{plan}''
   \<and> delimited ''{plan}''
   \<and> json_loads (scripted_planner ''{plan}'' (Some done_plan)) (json_text ''{plan}'') = Some done_plan
   \<and> (\<exists>s'. create_research_plan (scripted_planner ''{plan}'' (Some done_plan)) start_state = Inr s'
          \<and> max_iterations s' = 3)
   \<and> initialize_research research_coordinator ''solar cells'' False ''markdown'' = Inr start_state
   \<and> query_type start_state = Some ''RESEARCH''
   \<and> (\<exists>s'. run research_coordinator (scripted_planner ''no plan'' None) ''solar cells'' (Some 1)
              False ''markdown'' = Inr s'
          \<and> max_iterations s' = 2)"
proof -
  have a: "create_reply (scripted_planner ''no plan'' None) start_state = Inr ''no plan''"
    by simp
  have b: "create_reply (scripted_planner ''{plan}'' (Some done_plan)) start_state = Inr ''{plan}''"
    by simp
  have c: "json_loads (scripted_planner ''{plan}'' (Some done_plan)) (json_text ''{plan}'')
             = Some done_plan"
    by simp
  have d: "max_iterations start_state = 5 \<and> query_type start_state = Some ''RESEARCH''"
    by (simp add: start_state_def)
  have e: "(case estimated_iterations done_plan of None \<Rightarrow> 3 | Some n \<Rightarrow> n) = (3::int)"
    by (simp add: done_plan_def)
  have "\<exists>s'. create_research_plan (scripted_planner ''no plan'' None) start_state = Inr s'
          \<and> max_iterations s' = 2"
    using a not_delimited_plain
      create_plan_overwrites_max_iterations
        [of "scripted_planner ''no plan'' None" start_state "''no plan''"]
    by blast
  moreover have "\<exists>s'. create_research_plan (scripted_planner ''{plan}'' (Some done_plan)) start_state
        = Inr s' \<and> max_iterations s' = 3"
    using b c delimited_braces
      create_plan_overwrites_max_iterations
        [of "scripted_planner ''{plan}'' (Some done_plan)" start_state "''{plan}''" done_plan]
    unfolding e by blast
  moreover have "\<exists>s'. run research_coordinator (scripted_planner ''no plan'' None) ''solar cells''
        (Some 1) False ''markdown'' = Inr s' \<and> max_iterations s' = 2"
    using a d not_delimited_plain initialize_research_demo
      create_plan_overwrites_max_iterations
        [of "scripted_planner ''no plan'' None" start_state "''no plan''" _ research_coordinator
          "''solar cells''" False "''markdown''" start_state "Some 1"]
    by auto
  ultimately show ?thesis
    using a b c d not_delimited_plain delimited_braces initialize_research_demo by blast
qed


section \<open>Lemmas on the Researcher\<close>

lemma search_raises:
  "tool_raises R q source e \<Longrightarrow>
   search R q source
     = Some \<lparr> result_task_id = None, result_query = q, result_source = source,
              results = [], timestamp = None, error = Some (exn_str e) \<rparr>"
  by (auto simp: search_def tool_raises_def split: option.splits)

lemma search_unavailable: "source_unavailable R source \<Longrightarrow> search R q source = None"
  by (auto simp: search_def source_unavailable_def)

lemma run_searches_id:
  "task_id task = Some i \<Longrightarrow>
   run_searches R task pairs
     = Inr (map (\<lambda>r. r\<lparr> result_task_id := Some i \<rparr>)
              (List.map_filter (\<lambda>(q, source). search R q source) pairs))"
  by (induction pairs) (auto simp: List.map_filter_simps split: option.splits)

lemma run_searches_no_id:
  "task_id task = None \<Longrightarrow>
   run_searches R task pairs = Inl (KeyError ''task_id'') \<or> run_searches R task pairs = Inr []"
  by (induction pairs) (auto split: option.splits)

lemma run_searches_same_id:
  "task_id task' = task_id task \<Longrightarrow> run_searches R task' pairs = run_searches R task pairs"
  by (induction pairs) (auto split: option.splits sum.splits)

lemma run_searches_skip:
  "\<forall>q. search R q source = None \<Longrightarrow>
   run_searches R task (filter (\<lambda>(q, x). x \<noteq> source) pairs) = run_searches R task pairs"
  by (induction pairs) (auto split: option.splits sum.splits)

lemma product_filter:
  "filter (\<lambda>(q, x). P x) (List.product qs xs) = List.product qs (filter P xs)"
  by (induction qs) (simp_all add: filter_map comp_def)

lemma mark_completed_id: "task_id task = Some i \<Longrightarrow> mark_completed task ts = Inr (mark_first i ts)"
  by (induction ts) auto

lemma mark_completed_no_id:
  "task_id task = None \<Longrightarrow> ts \<noteq> [] \<Longrightarrow> mark_completed task ts = Inl (KeyError ''task_id'')"
  by (cases ts) auto

lemma mark_completed_same_id:
  "task_id task' = task_id task \<Longrightarrow> mark_completed task' ts = mark_completed task ts"
  by (induction ts) (auto split: option.splits sum.splits)

lemma mark_first_split:
  "\<forall>t \<in> set before. task_id t \<noteq> Some i \<Longrightarrow> task_id task = Some i \<Longrightarrow>
   mark_first i (before @ task # after) = before @ task\<lparr> status := Some ''completed'' \<rparr> # after"
  by (induction before) auto

lemma execute_task_id:
  assumes "task_id task = Some i"
  shows "\<exists>s'. execute_task R s task = Inr s'
           \<and> research_results s'
               = Some (old_results s
                   @ map (\<lambda>r. r\<lparr> result_task_id := Some i \<rparr>)
                       (List.map_filter (\<lambda>(q, source). search R q source)
                          (List.product (case search_queries task of None \<Rightarrow> [] | Some qs \<Rightarrow> qs)
                                        (case sources task of None \<Rightarrow> [] | Some srcs \<Rightarrow> srcs))))
           \<and> research_plan s'
               = map_option (\<lambda>pl. pl\<lparr> sub_tasks := map_option (mark_first i) (sub_tasks pl) \<rparr>)
                   (research_plan s)
           \<and> iteration_count s' = iteration_count s"
proof (cases "research_plan s")
  case None
  then show ?thesis
    by (simp add: execute_task_def run_searches_id [OF assms] old_results_def plan_truthy_def
          Let_def)
next
  case (Some pl)
  show ?thesis
  proof (cases "sub_tasks pl")
    case None
    then have "pl\<lparr> sub_tasks := None \<rparr> = pl" by simp
    then show ?thesis
      using \<open>research_plan s = Some pl\<close> None
      by (auto simp: execute_task_def run_searches_id [OF assms] old_results_def Let_def)
  next
    case (Some ts)
    then show ?thesis
      using \<open>research_plan s = Some pl\<close>
      by (simp add: execute_task_def run_searches_id [OF assms] old_results_def plan_truthy_def
            mark_completed_id [OF assms] Let_def)
  qed
qed

lemma execute_task_marks:
  assumes "task_id task = Some i"
    and "research_plan s'
           = map_option (\<lambda>pl. pl\<lparr> sub_tasks := map_option (mark_first i) (sub_tasks pl) \<rparr>)
               (research_plan s)"
  shows "marks_completed s task s'"
  unfolding marks_completed_def
proof (intro allI impI)
  fix pl before after
  assume a: "research_plan s = Some pl \<and> sub_tasks pl = Some (before @ task # after)
        \<and> (\<forall>t \<in> set before. task_id t \<noteq> task_id task)"
  then have "mark_first i (before @ task # after)
      = before @ task\<lparr> status := Some ''completed'' \<rparr> # after"
    using assms(1) by (intro mark_first_split) auto
  then show "research_plan s'
      = Some (pl\<lparr> sub_tasks := Some (before @ task\<lparr> status := Some ''completed'' \<rparr> # after) \<rparr>)"
    using a assms(2) by simp
qed

lemma execute_task_no_id:
  assumes "task_id task = None" and "research_plan s = Some pl" and "sub_tasks pl = Some ts"
    and "ts \<noteq> []"
  shows "execute_task R s task = Inl (KeyError ''task_id'')"
  using run_searches_no_id [OF assms(1), of R
      "List.product (case search_queries task of None \<Rightarrow> [] | Some qs \<Rightarrow> qs)
                    (case sources task of None \<Rightarrow> [] | Some srcs \<Rightarrow> srcs)"]
    assms(2-4) mark_completed_no_id [OF assms(1) assms(4)]
  by (auto simp: execute_task_def plan_truthy_def Let_def)

lemma get_next_task_step [simp]:
  "get_next_task (s\<lparr> current_step := c \<rparr>) = get_next_task s"
  by (simp add: get_next_task_def)

lemma get_next_task_has_tasks:
  assumes "get_next_task s = Inr (Some task)"
  shows "\<exists>pl ts. research_plan s = Some pl \<and> sub_tasks pl = Some ts \<and> ts \<noteq> []"
  using assms
  by (auto simp: get_next_task_def py_sorted_def Let_def split: option.splits if_splits sum.splits)

lemma researcher_node_id:
  assumes "get_next_task s = Inr (Some task)" and "task_id task = Some i"
  shows "\<exists>s'. researcher_node R s = Inr s'
           \<and> iteration_count s' = iteration_count s + 1
           \<and> research_results s'
               = Some (old_results s
                   @ map (\<lambda>r. r\<lparr> result_task_id := Some i \<rparr>)
                       (List.map_filter (\<lambda>(q, source). search R q source)
                          (List.product (case search_queries task of None \<Rightarrow> [] | Some qs \<Rightarrow> qs)
                                        (case sources task of None \<Rightarrow> [] | Some srcs \<Rightarrow> srcs))))
           \<and> research_plan s'
               = map_option (\<lambda>pl. pl\<lparr> sub_tasks := map_option (mark_first i) (sub_tasks pl) \<rparr>)
                   (research_plan s)"
proof -
  define s1 where "s1 = s\<lparr> current_step := ''researching'', iteration_count := iteration_count s + 1 \<rparr>"
  obtain s2 where ex: "execute_task R s1 task = Inr s2"
    and res: "research_results s2
        = Some (old_results s1
            @ map (\<lambda>r. r\<lparr> result_task_id := Some i \<rparr>)
                (List.map_filter (\<lambda>(q, source). search R q source)
                   (List.product (case search_queries task of None \<Rightarrow> [] | Some qs \<Rightarrow> qs)
                                 (case sources task of None \<Rightarrow> [] | Some srcs \<Rightarrow> srcs))))"
    and plan: "research_plan s2
        = map_option (\<lambda>pl. pl\<lparr> sub_tasks := map_option (mark_first i) (sub_tasks pl) \<rparr>)
            (research_plan s1)"
    and count: "iteration_count s2 = iteration_count s1"
    using execute_task_id [OF assms(2), of R s1] by blast
  have "researcher_node R s
      = Inr (s2\<lparr> current_task := Some (task_after (s\<lparr> current_step := ''researching'' \<rparr>) task) \<rparr>)"
    using assms(1) ex by (simp add: researcher_node_def Let_def s1_def)
  moreover have "old_results s1 = old_results s" and "research_plan s1 = research_plan s"
    and "iteration_count s1 = iteration_count s + 1"
    by (simp_all add: s1_def old_results_def)
  ultimately show ?thesis using res plan count by simp
qed

lemma map_filter_unavailable:
  "\<forall>q. search R q source = None \<Longrightarrow>
   List.map_filter (\<lambda>(q, x). search R q x) (List.product qs [source]) = []"
  by (induction qs) (simp_all add: List.map_filter_simps)

lemma map_filter_mem: "x \<in> set xs \<Longrightarrow> f x = Some y \<Longrightarrow> y \<in> set (List.map_filter f xs)"
  by (induction xs) (auto simp: List.map_filter_simps split: option.splits)

lemma map_filter_skip:
  "\<forall>x \<in> set xs. \<not> P x \<longrightarrow> f x = None \<Longrightarrow>
   List.map_filter f (filter P xs) = List.map_filter f xs"
  by (induction xs) (auto simp: List.map_filter_simps split: option.splits)

lemma map_filter_drop:
  assumes "\<forall>q. search R q source = None"
  shows "List.map_filter (\<lambda>(q, x). search R q x) (List.product qs (filter (\<lambda>x. x \<noteq> source) srcs))
           = List.map_filter (\<lambda>(q, x). search R q x) (List.product qs srcs)"
proof -
  have "List.map_filter (\<lambda>(q, x). search R q x)
          (filter (\<lambda>(q, x). x \<noteq> source) (List.product qs srcs))
      = List.map_filter (\<lambda>(q, x). search R q x) (List.product qs srcs)"
    using assms by (intro map_filter_skip) auto
  then show ?thesis by (simp add: product_filter)
qed

lemma execute_task_drop_source:
  assumes "\<forall>q. search R q source = None"
  shows "execute_task R s (task\<lparr> sources := map_option (filter (\<lambda>x. x \<noteq> source)) (sources task) \<rparr>)
           = execute_task R s task"
proof -
  define task' where
    "task' = task\<lparr> sources := map_option (filter (\<lambda>x. x \<noteq> source)) (sources task) \<rparr>"
  have same: "task_id task' = task_id task" and q: "search_queries task' = search_queries task"
    by (simp_all add: task'_def)
  have "List.product (case search_queries task of None \<Rightarrow> [] | Some qs \<Rightarrow> qs)
          (case sources task' of None \<Rightarrow> [] | Some srcs \<Rightarrow> srcs)
      = filter (\<lambda>(q, x). x \<noteq> source)
          (List.product (case search_queries task of None \<Rightarrow> [] | Some qs \<Rightarrow> qs)
             (case sources task of None \<Rightarrow> [] | Some srcs \<Rightarrow> srcs))"
    by (cases "sources task") (simp_all add: task'_def product_filter)
  then have rs: "run_searches R task'
        (List.product (case search_queries task of None \<Rightarrow> [] | Some qs \<Rightarrow> qs)
           (case sources task' of None \<Rightarrow> [] | Some srcs \<Rightarrow> srcs))
      = run_searches R task
          (List.product (case search_queries task of None \<Rightarrow> [] | Some qs \<Rightarrow> qs)
             (case sources task of None \<Rightarrow> [] | Some srcs \<Rightarrow> srcs))"
    using run_searches_same_id [OF same] run_searches_skip [OF assms] by simp
  have mc: "mark_completed task' = mark_completed task"
    by (rule ext) (rule mark_completed_same_id [OF same])
  have "execute_task R s task' = execute_task R s task"
    unfolding execute_task_def q rs mc by (rule refl)
  then show ?thesis by (simp add: task'_def)
qed

section \<open>The claims on the Search stage\<close>

text \<open>
  C6, as the specification states it, fails: on a state whose plan has no pending
  sub-task, \<^verbatim>\<open>researcher_node\<close> returns with \<open>iteration_count\<close> as it was.
\<close>

theorem researcher_node_idle_counterexample:
  "iteration_count (start_state\<lparr> research_plan := Some empty_plan \<rparr>) = 0
   \<and> map_sum id iteration_count
        (researcher_node offline_researcher (start_state\<lparr> research_plan := Some empty_plan \<rparr>))
       = Inr 0"
  by (simp add: researcher_node_def get_next_task_def py_sorted_def plan_truthy_def empty_plan_def
        start_state_def Let_def)

text \<open>
  C6, amended. An invocation of \<^verbatim>\<open>researcher_node\<close> that finds a pending task with an
  id returns with \<open>iteration_count\<close> increased by exactly 1, whatever queries and sources
  the task has and whatever the tools do. An invocation that finds no pending task
  returns with \<open>iteration_count\<close> unchanged and \<open>needs_more_research\<close> false. An invocation
  that finds a pending task without an id raises \<^verbatim>\<open>KeyError\<close>.
\<close>

theorem researcher_node_counts:
  "(get_next_task s = Inr (Some task) \<and> task_id task = Some i
      \<longrightarrow> (\<exists>s'. researcher_node R s = Inr s' \<and> iteration_count s' = iteration_count s + 1))
   \<and> (get_next_task s = Inr None
      \<longrightarrow> (\<exists>s'. researcher_node R s = Inr s' \<and> iteration_count s' = iteration_count s
              \<and> \<not> needs_more_research s'))
   \<and> (get_next_task s = Inr (Some task) \<and> task_id task = None
      \<longrightarrow> researcher_node R s = Inl (KeyError ''task_id''))"
proof (intro conjI impI)
  assume "get_next_task s = Inr (Some task) \<and> task_id task = Some i"
  then show "\<exists>s'. researcher_node R s = Inr s' \<and> iteration_count s' = iteration_count s + 1"
    using researcher_node_id [of s task i R] by blast
next
  assume "get_next_task s = Inr None"
  then show "\<exists>s'. researcher_node R s = Inr s' \<and> iteration_count s' = iteration_count s
      \<and> \<not> needs_more_research s'"
    by (simp add: researcher_node_def Let_def)
next
  assume a: "get_next_task s = Inr (Some task) \<and> task_id task = None"
  then obtain pl ts where "research_plan s = Some pl" and "sub_tasks pl = Some ts" and "ts \<noteq> []"
    using get_next_task_has_tasks by blast
  then have "execute_task R
      (s\<lparr> current_step := ''researching'', iteration_count := iteration_count s + 1 \<rparr>) task
      = Inl (KeyError ''task_id'')"
    using a by (intro execute_task_no_id [where pl = pl and ts = ts]) simp_all
  then show "researcher_node R s = Inl (KeyError ''task_id'')"
    using a by (simp add: researcher_node_def Let_def)
qed

theorem researcher_node_counts_witness:
  "get_next_task planned_state = Inr (Some task_b) \<and> task_id task_b = Some 2
   \<and> iteration_count planned_state = 0
   \<and> (\<exists>s'. researcher_node offline_researcher planned_state = Inr s' \<and> iteration_count s' = 1)
   \<and> get_next_task start_state = Inr None
   \<and> (\<exists>s'. researcher_node offline_researcher start_state = Inr s' \<and> iteration_count s' = 0
          \<and> \<not> needs_more_research s')
   \<and> get_next_task (start_state\<lparr> research_plan :=
          Some (empty_plan\<lparr> sub_tasks := Some [task_a\<lparr> task_id := None \<rparr>] \<rparr>) \<rparr>)
       = Inr (Some (task_a\<lparr> task_id := None \<rparr>))
   \<and> researcher_node offline_researcher
        (start_state\<lparr> research_plan :=
           Some (empty_plan\<lparr> sub_tasks := Some [task_a\<lparr> task_id := None \<rparr>] \<rparr>) \<rparr>)
       = Inl (KeyError ''task_id'')"
proof -
  have a: "task_id task_b = Some 2"
    by (simp add: task_b_def)
  have b: "iteration_count planned_state = 0" "iteration_count start_state = 0"
    by (simp_all add: planned_state_def start_state_def)
  have c: "get_next_task start_state = Inr None"
    by (simp add: get_next_task_def start_state_def plan_truthy_def)
  have d: "get_next_task (start_state\<lparr> research_plan :=
          Some (empty_plan\<lparr> sub_tasks := Some [task_a\<lparr> task_id := None \<rparr>] \<rparr>) \<rparr>)
       = Inr (Some (task_a\<lparr> task_id := None \<rparr>))"
    by (simp add: get_next_task_def py_sorted_def plan_truthy_def empty_plan_def task_key_def
          task_a_def Let_def)
  have e: "task_id (task_a\<lparr> task_id := None \<rparr>) = None"
    by simp
  have "\<exists>s'. researcher_node offline_researcher planned_state = Inr s' \<and> iteration_count s' = 1"
    using researcher_node_counts [of planned_state task_b 2 offline_researcher]
      get_next_task_planned a b by simp
  moreover have "\<exists>s'. researcher_node offline_researcher start_state = Inr s'
      \<and> iteration_count s' = 0 \<and> \<not> needs_more_research s'"
    using researcher_node_counts [of start_state _ _ offline_researcher] b c by simp
  moreover have "researcher_node offline_researcher
        (start_state\<lparr> research_plan :=
           Some (empty_plan\<lparr> sub_tasks := Some [task_a\<lparr> task_id := None \<rparr>] \<rparr>) \<rparr>)
       = Inl (KeyError ''task_id'')"
    using researcher_node_counts [of _ "task_a\<lparr> task_id := None \<rparr>" _ offline_researcher] d e
    by blast
  ultimately show ?thesis using get_next_task_planned a b c d by blast
qed

text \<open>
  C8. When the tool that \<^verbatim>\<open>_search\<close> invokes for a pair (query, source) of the task
  raises, \<^verbatim>\<open>_search\<close> returns a batch with no items and the error text. And
  \<^verbatim>\<open>execute_task\<close>, on a task with an id, returns (whatever the tools do on the other
  pairs): \<open>research_results\<close> is the batches from before followed by the new ones, the
  error batch with the task's id is among the new ones, and the task is marked
  completed in the plan.
\<close>

theorem search_failure_recovered:
  assumes "tool_raises R q source e"
    and "task_id task = Some i"
    and "search_queries task = Some qs" and "sources task = Some srcs"
    and "q \<in> set qs" and "source \<in> set srcs"
  shows "search R q source
           = Some \<lparr> result_task_id = None, result_query = q, result_source = source,
                    results = [], timestamp = None, error = Some (exn_str e) \<rparr>
         \<and> (\<exists>s' new. execute_task R s task = Inr s'
               \<and> research_results s' = Some (old_results s @ new)
               \<and> \<lparr> result_task_id = Some i, result_query = q, result_source = source,
                     results = [], timestamp = None, error = Some (exn_str e) \<rparr> \<in> set new
               \<and> marks_completed s task s')"
proof -
  let ?batch = "\<lparr> result_task_id = None, result_query = q, result_source = source,
                   results = [], timestamp = None, error = Some (exn_str e) \<rparr>"
  let ?found = "List.map_filter (\<lambda>(q, source). search R q source) (List.product qs srcs)"
  have batch: "search R q source = Some ?batch"
    using assms(1) by (rule search_raises)
  have "(q, source) \<in> set (List.product qs srcs)"
    using assms(5,6) by simp
  then have "?batch \<in> set ?found"
    using batch by (intro map_filter_mem [where x = "(q, source)"]) simp_all
  then have "?batch\<lparr> result_task_id := Some i \<rparr> \<in> set (map (\<lambda>r. r\<lparr> result_task_id := Some i \<rparr>) ?found)"
    unfolding set_map by (rule imageI)
  then have mem: "\<lparr> result_task_id = Some i, result_query = q, result_source = source,
        results = [], timestamp = None, error = Some (exn_str e) \<rparr>
      \<in> set (map (\<lambda>r. r\<lparr> result_task_id := Some i \<rparr>) ?found)"
    by simp
  obtain s' where "execute_task R s task = Inr s'"
    and "research_results s'
        = Some (old_results s @ map (\<lambda>r. r\<lparr> result_task_id := Some i \<rparr>) ?found)"
    and "research_plan s'
        = map_option (\<lambda>pl. pl\<lparr> sub_tasks := map_option (mark_first i) (sub_tasks pl) \<rparr>)
            (research_plan s)"
    using execute_task_id [OF assms(2), of R s] assms(3,4) by auto
  then show ?thesis
    using batch mem execute_task_marks [OF assms(2)] by blast
qed

theorem search_failure_recovered_witness:
  "tool_raises offline_researcher ''solar cells'' ''arxiv'' (Failure ''timeout'')
   \<and> task_id task_a = Some 1
   \<and> search_queries task_a = Some [''solar cells''] \<and> sources task_a = Some [''arxiv'']
   \<and> search offline_researcher ''solar cells'' ''arxiv'' = Some (timeout_batch\<lparr> result_task_id := None \<rparr>)
   \<and> (\<exists>s' new. execute_task offline_researcher
                    (planned_state\<lparr> research_results := Some [timeout_batch] \<rparr>) task_a = Inr s'
          \<and> research_results s' = Some ([timeout_batch] @ new) \<and> timeout_batch \<in> set new
          \<and> research_plan s'
              = Some (demo_plan\<lparr> sub_tasks :=
                        Some [task_a\<lparr> status := Some ''completed'' \<rparr>, task_b, task_c] \<rparr>))"
proof -
  let ?s = "planned_state\<lparr> research_results := Some [timeout_batch] \<rparr>"
  have a: "tool_raises offline_researcher ''solar cells'' ''arxiv'' (Failure ''timeout'')"
    by (simp add: tool_raises_def offline_researcher_def)
  have b: "task_id task_a = Some 1" "search_queries task_a = Some [''solar cells'']"
    "sources task_a = Some [''arxiv'']"
    by (simp_all add: task_a_def)
  have c: "''solar cells'' \<in> set [''solar cells'']" "''arxiv'' \<in> set [''arxiv'']"
    by simp_all
  have d: "old_results ?s = [timeout_batch]"
    by (simp add: old_results_def)
  have e: "research_plan ?s = Some demo_plan
      \<and> sub_tasks demo_plan = Some ([] @ task_a # [task_b, task_c])
      \<and> (\<forall>t \<in> set []. task_id t \<noteq> task_id task_a)"
    by (simp add: planned_state_def demo_plan_def)
  from search_failure_recovered [OF a b c, of ?s]
  obtain s' new where s': "execute_task offline_researcher ?s task_a = Inr s'"
    and res: "research_results s' = Some (old_results ?s @ new)"
    and mem: "\<lparr> result_task_id = Some 1, result_query = ''solar cells'', result_source = ''arxiv'',
                 results = [], timestamp = None, error = Some (exn_str (Failure ''timeout'')) \<rparr>
               \<in> set new"
    and marks: "marks_completed ?s task_a s'"
    and batch: "search offline_researcher ''solar cells'' ''arxiv''
        = Some \<lparr> result_task_id = None, result_query = ''solar cells'', result_source = ''arxiv'',
                 results = [], timestamp = None, error = Some (exn_str (Failure ''timeout'')) \<rparr>"
    by blast
  have "research_plan s'
      = Some (demo_plan\<lparr> sub_tasks :=
                Some ([] @ task_a\<lparr> status := Some ''completed'' \<rparr> # [task_b, task_c]) \<rparr>)"
    using marks e unfolding marks_completed_def by blast
  moreover have "timeout_batch \<in> set new"
    using mem by (simp add: timeout_batch_def)
  moreover have "search offline_researcher ''solar cells'' ''arxiv''
      = Some (timeout_batch\<lparr> result_task_id := None \<rparr>)"
    using batch by (simp add: timeout_batch_def)
  ultimately show ?thesis using a b s' res d by auto
qed

text \<open>
  C10. For a source that names no supported tool, or a tool that was not configured,
  \<^verbatim>\<open>_search\<close> returns \<^verbatim>\<open>None\<close> without raising, and \<^verbatim>\<open>execute_task\<close> does what it
  does on the task with that source removed. On every task with an id, whatever its
  other sources, \<^verbatim>\<open>execute_task\<close> returns: \<open>research_results\<close> is the batches from before
  followed by the batches of the pairs with the other sources, so the source adds no
  batch and no error record, and the task is marked completed. And \<^verbatim>\<open>researcher_node\<close>,
  picking such a task, returns the same and adds 1 to \<open>iteration_count\<close>.
\<close>

theorem unavailable_source_skipped:
  assumes "source_unavailable R source"
  shows "search R q source = None
         \<and> execute_task R s task
             = execute_task R s
                 (task\<lparr> sources := map_option (filter (\<lambda>x. x \<noteq> source)) (sources task) \<rparr>)
         \<and> (task_id task = Some i
              \<longrightarrow> (\<exists>s'. execute_task R s task = Inr s'
                      \<and> research_results s'
                          = Some (old_results s
                              @ tagged_batches R i
                                  (case search_queries task of None \<Rightarrow> [] | Some qs \<Rightarrow> qs)
                                  (filter (\<lambda>x. x \<noteq> source)
                                     (case sources task of None \<Rightarrow> [] | Some srcs \<Rightarrow> srcs)))
                      \<and> marks_completed s task s'))
         \<and> (get_next_task s = Inr (Some task) \<and> task_id task = Some i
              \<longrightarrow> (\<exists>s'. researcher_node R s = Inr s'
                      \<and> research_results s'
                          = Some (old_results s
                              @ tagged_batches R i
                                  (case search_queries task of None \<Rightarrow> [] | Some qs \<Rightarrow> qs)
                                  (filter (\<lambda>x. x \<noteq> source)
                                     (case sources task of None \<Rightarrow> [] | Some srcs \<Rightarrow> srcs)))
                      \<and> iteration_count s' = iteration_count s + 1
                      \<and> marks_completed s task s'))"
proof (intro conjI impI)
  have none: "\<forall>q. search R q source = None"
    using assms by (simp add: search_unavailable)
  have same: "tagged_batches R i qs (filter (\<lambda>x. x \<noteq> source) srcs) = tagged_batches R i qs srcs"
    for qs srcs
    using map_filter_drop [OF none, of qs srcs] by (simp add: tagged_batches_def)
  show "search R q source = None"
    using none by simp
  show "execute_task R s task
      = execute_task R s
          (task\<lparr> sources := map_option (filter (\<lambda>x. x \<noteq> source)) (sources task) \<rparr>)"
    using execute_task_drop_source [OF none, of s task] by simp
  {
    assume a: "task_id task = Some i"
    then show "\<exists>s'. execute_task R s task = Inr s'
        \<and> research_results s'
            = Some (old_results s
                @ tagged_batches R i
                    (case search_queries task of None \<Rightarrow> [] | Some qs \<Rightarrow> qs)
                    (filter (\<lambda>x. x \<noteq> source)
                       (case sources task of None \<Rightarrow> [] | Some srcs \<Rightarrow> srcs)))
        \<and> marks_completed s task s'"
      using execute_task_id [of task i R s] execute_task_marks [of task i _ s]
      unfolding same by (auto simp: tagged_batches_def)
  }
  {
    assume a: "get_next_task s = Inr (Some task) \<and> task_id task = Some i"
    then show "\<exists>s'. researcher_node R s = Inr s'
        \<and> research_results s'
            = Some (old_results s
                @ tagged_batches R i
                    (case search_queries task of None \<Rightarrow> [] | Some qs \<Rightarrow> qs)
                    (filter (\<lambda>x. x \<noteq> source)
                       (case sources task of None \<Rightarrow> [] | Some srcs \<Rightarrow> srcs)))
        \<and> iteration_count s' = iteration_count s + 1
        \<and> marks_completed s task s'"
      using researcher_node_id [of s task i R] execute_task_marks [of task i _ s]
      unfolding same by (auto simp: tagged_batches_def)
  }
qed

theorem unavailable_source_skipped_witness:
  "source_unavailable offline_researcher ''wiki''
   \<and> search offline_researcher ''perovskite'' ''wiki'' = None
   \<and> execute_task offline_researcher planned_state task_b
       = execute_task offline_researcher planned_state (task_b\<lparr> sources := Some [] \<rparr>)
   \<and> source_unavailable offline_researcher ''tavily''
   \<and> search offline_researcher ''thin film'' ''tavily'' = None
   \<and> task_id task_d = Some 5 \<and> sources task_d = Some [''tavily'', ''arxiv'']
   \<and> get_next_task two_source_state = Inr (Some task_d)
   \<and> research_results two_source_state = Some [] \<and> iteration_count two_source_state = 0
   \<and> (\<exists>s'. execute_task offline_researcher two_source_state task_d = Inr s'
          \<and> research_results s'
              = Some [\<lparr> result_task_id = Some 5, result_query = ''thin film'',
                        result_source = ''arxiv'', results = [], timestamp = None,
                        error = Some ''timeout'' \<rparr>]
          \<and> research_plan s'
              = Some (demo_plan\<lparr> sub_tasks :=
                        Some [task_a, task_d\<lparr> status := Some ''completed'' \<rparr>] \<rparr>))
   \<and> (\<exists>s'. researcher_node offline_researcher two_source_state = Inr s'
          \<and> research_results s'
              = Some [\<lparr> result_task_id = Some 5, result_query = ''thin film'',
                        result_source = ''arxiv'', results = [], timestamp = None,
                        error = Some ''timeout'' \<rparr>]
          \<and> iteration_count s' = 1
          \<and> research_plan s'
              = Some (demo_plan\<lparr> sub_tasks :=
                        Some [task_a, task_d\<lparr> status := Some ''completed'' \<rparr>] \<rparr>))"
proof -
  have a: "source_unavailable offline_researcher ''wiki''"
    by (simp add: source_unavailable_def)
  have a': "source_unavailable offline_researcher ''tavily''"
    by (simp add: source_unavailable_def offline_researcher_def)
  have b: "task_id task_d = Some 5 \<and> sources task_d = Some [''tavily'', ''arxiv'']"
    by (simp add: task_d_def)
  have c: "research_results two_source_state = Some [] \<and> iteration_count two_source_state = 0
      \<and> old_results two_source_state = []"
    by (simp add: two_source_state_def start_state_def old_results_def)
  have d: "research_plan two_source_state = Some (demo_plan\<lparr> sub_tasks := Some [task_a, task_d] \<rparr>)
      \<and> sub_tasks (demo_plan\<lparr> sub_tasks := Some [task_a, task_d] \<rparr>) = Some ([task_a] @ task_d # [])
      \<and> (\<forall>t \<in> set [task_a]. task_id t \<noteq> task_id task_d)"
    by (simp add: two_source_state_def task_a_def task_d_def)
  have e: "task_b\<lparr> sources := map_option (filter (\<lambda>x. x \<noteq> ''wiki'')) (sources task_b) \<rparr>
      = task_b\<lparr> sources := Some [] \<rparr>"
    by (simp add: task_b_def)
  have next_task: "get_next_task two_source_state = Inr (Some task_d)"
  proof -
    have "plan_tasks two_source_state = [task_a, task_d]"
      by (simp add: plan_tasks_def two_source_state_def)
    moreover have "\<not> mixed_priorities [task_a, task_d]"
      by (simp add: mixed_priorities_def task_a_def task_d_def)
    ultimately show ?thesis
      by (simp add: get_next_task_find task_a_def task_d_def task_key_def)
  qed
  have batches: "tagged_batches offline_researcher 5
        (case search_queries task_d of None \<Rightarrow> [] | Some qs \<Rightarrow> qs)
        (filter (\<lambda>x. x \<noteq> ''tavily'') (case sources task_d of None \<Rightarrow> [] | Some srcs \<Rightarrow> srcs))
      = [\<lparr> result_task_id = Some 5, result_query = ''thin film'', result_source = ''arxiv'',
           results = [], timestamp = None, error = Some ''timeout'' \<rparr>]"
    by (simp add: tagged_batches_def task_d_def search_def offline_researcher_def
          List.map_filter_simps)
  note wiki = unavailable_source_skipped [OF a, of "''perovskite''" planned_state task_b 2]
  note inst = unavailable_source_skipped [OF a', of "''thin film''" two_source_state task_d 5]
  have f: "search offline_researcher ''perovskite'' ''wiki'' = None"
    using wiki by blast
  have g: "search offline_researcher ''thin film'' ''tavily'' = None"
    using inst by blast
  have h: "execute_task offline_researcher planned_state task_b
      = execute_task offline_researcher planned_state (task_b\<lparr> sources := Some [] \<rparr>)"
    using wiki unfolding e by blast
  obtain s1 where s1: "execute_task offline_researcher two_source_state task_d = Inr s1"
    "research_results s1 = Some (old_results two_source_state
       @ tagged_batches offline_researcher 5
           (case search_queries task_d of None \<Rightarrow> [] | Some qs \<Rightarrow> qs)
           (filter (\<lambda>x. x \<noteq> ''tavily'') (case sources task_d of None \<Rightarrow> [] | Some srcs \<Rightarrow> srcs)))"
    and m1: "marks_completed two_source_state task_d s1"
    using inst b by blast
  have p1: "research_plan s1
      = Some (demo_plan\<lparr> sub_tasks := Some [task_a, task_d] \<rparr>
                \<lparr> sub_tasks := Some ([task_a] @ task_d\<lparr> status := Some ''completed'' \<rparr> # []) \<rparr>)"
    using m1 d unfolding marks_completed_def by blast
  obtain s2 where s2: "researcher_node offline_researcher two_source_state = Inr s2"
    "research_results s2 = Some (old_results two_source_state
       @ tagged_batches offline_researcher 5
           (case search_queries task_d of None \<Rightarrow> [] | Some qs \<Rightarrow> qs)
           (filter (\<lambda>x. x \<noteq> ''tavily'') (case sources task_d of None \<Rightarrow> [] | Some srcs \<Rightarrow> srcs)))"
    "iteration_count s2 = iteration_count two_source_state + 1"
    and m2: "marks_completed two_source_state task_d s2"
    using inst b next_task by blast
  have p2: "research_plan s2
      = Some (demo_plan\<lparr> sub_tasks := Some [task_a, task_d] \<rparr>
                \<lparr> sub_tasks := Some ([task_a] @ task_d\<lparr> status := Some ''completed'' \<rparr> # []) \<rparr>)"
    using m2 d unfolding marks_completed_def by blast
  have x1: "\<exists>s'. execute_task offline_researcher two_source_state task_d = Inr s'
      \<and> research_results s'
          = Some [\<lparr> result_task_id = Some 5, result_query = ''thin film'',
                    result_source = ''arxiv'', results = [], timestamp = None,
                    error = Some ''timeout'' \<rparr>]
      \<and> research_plan s'
          = Some (demo_plan\<lparr> sub_tasks :=
                    Some [task_a, task_d\<lparr> status := Some ''completed'' \<rparr>] \<rparr>)"
    using s1 p1 c batches by (intro exI [of _ s1]) simp
  have x2: "\<exists>s'. researcher_node offline_researcher two_source_state = Inr s'
      \<and> research_results s'
          = Some [\<lparr> result_task_id = Some 5, result_query = ''thin film'',
                    result_source = ''arxiv'', results = [], timestamp = None,
                    error = Some ''timeout'' \<rparr>]
      \<and> iteration_count s' = 1
      \<and> research_plan s'
          = Some (demo_plan\<lparr> sub_tasks :=
                    Some [task_a, task_d\<lparr> status := Some ''completed'' \<rparr>] \<rparr>)"
    using s2 p2 c batches by (intro exI [of _ s2]) simp
  show ?thesis
    using a a' b c f g h x1 x2 next_task by blast
qed

end
